theory Spec2Isabelle
  imports Main "HOL-Library.AList" "HOL-Library.Sublist"
begin

section \<open>The inbox server of the Agent Inbox Protocol (server.js)\<close>

text \<open>
  The development follows \<^verbatim>\<open>src/server.js\<close>: the helper functions
  (\<^verbatim>\<open>verifySignature\<close>, \<^verbatim>\<open>signMessage\<close>, \<^verbatim>\<open>checkRateLimit\<close>,
  \<^verbatim>\<open>checkNonce\<close>, \<^verbatim>\<open>loadTask\<close>, \<^verbatim>\<open>saveTask\<close>, \<^verbatim>\<open>saveReceipt\<close>),
  the periodic nonce sweep, and the route handlers. Each handler is a function from the
  server state and its inputs to a response and the state it leaves behind.

  Modelling decisions:
  \<^item> The required fields of a posted body (\<^verbatim>\<open>task_id\<close>, \<^verbatim>\<open>requester_id\<close>,
    \<^verbatim>\<open>task_type\<close>, \<^verbatim>\<open>description\<close>, \<^verbatim>\<open>nonce\<close>, \<^verbatim>\<open>timestamp\<close>,
    \<^verbatim>\<open>signature\<close>) are the strings of the protocol's request schema. A field that is
    absent reads as the empty string: both are falsy and rejected by the first check of
    \<^verbatim>\<open>POST /inbox\<close>, before anything else looks at them.
  \<^item> The optional fields, the result of a completion and the rejection reason are JSON
    values; an absent one (\<^verbatim>\<open>undefined\<close>) is \<open>None\<close>.
  \<^item> Times are epoch milliseconds (\<open>int\<close>). Every read of the clock
    (\<^verbatim>\<open>Date.now()\<close>, \<^verbatim>\<open>new Date()\<close>) is an explicit argument, one per read, in
    the order of the reads. A stored \<^verbatim>\<open>toISOString()\<close> stamp is kept as the
    milliseconds it renders.
  \<^item> The two data directories are association lists from file name to the record stored
    in the file; \<^verbatim>\<open>writeFileSync\<close> replaces or adds an entry, \<^verbatim>\<open>readdirSync\<close>
    lists the names. They hold files only, no subdirectories.
  \<^item> A task id reaches the file system through \<^verbatim>\<open>path.join(DIR, id + '.json')\<close>, which
    resolves \<^verbatim>\<open>/\<close>, \<^verbatim>\<open>.\<close> and \<^verbatim>\<open>..\<close> (POSIX). The path is resolved as Node
    does. A path directly inside the directory is read and written there; a path into a
    subdirectory does not exist, and writing it throws; a path that leaves the directory
    touches a file this state does not hold, and the handler's outcome is then
    \<open>Unfollowed\<close>: the model says that it happens and nothing about what follows.
  \<^item> What the JavaScript runtime and the libraries compute (date parsing,
    \<^verbatim>\<open>parseInt\<close>, \<^verbatim>\<open>JSON.stringify\<close>, base64, Ed25519, SHA-256) is a parameter,
    the record \<open>runtime\<close>; a call that can throw returns an \<open>option\<close>.
\<close>

subsection \<open>JSON values and JavaScript truthiness\<close>

datatype json =
    JNull
  | JBool bool
  | JNum int
  | JStr string
  | JArr "json list"
  | JObj "(string \<times> json) list"

text \<open>\<^verbatim>\<open>!!v\<close> for a JSON value.\<close>

fun truthy :: "json \<Rightarrow> bool" where
  "truthy JNull = False"
| "truthy (JBool b) = b"
| "truthy (JNum n) = (n \<noteq> 0)"
| "truthy (JStr s) = (s \<noteq> [])"
| "truthy (JArr xs) = True"
| "truthy (JObj kvs) = True"

text \<open>\<^verbatim>\<open>v || null\<close>.\<close>

definition or_null :: "json option \<Rightarrow> json" where
  "or_null v = (case v of None \<Rightarrow> JNull | Some j \<Rightarrow> if truthy j then j else JNull)"

text \<open>\<^verbatim>\<open>v || d\<close> with a default \<open>d\<close>.\<close>

definition or_default :: "json option \<Rightarrow> json \<Rightarrow> json" where
  "or_default v d = (case v of None \<Rightarrow> d | Some j \<Rightarrow> if truthy j then j else d)"

text \<open>\<^verbatim>\<open>!!s\<close> for a query parameter: a string, or absent.\<close>

definition truthy_str :: "string option \<Rightarrow> bool" where
  "truthy_str q = (case q of None \<Rightarrow> False | Some s \<Rightarrow> s \<noteq> [])"

text \<open>
  An object literal whose properties may be \<^verbatim>\<open>undefined\<close>, as \<^verbatim>\<open>JSON.stringify\<close>
  sees it: the undefined properties are left out, the others keep their order.
\<close>

definition js_object :: "(string \<times> json option) list \<Rightarrow> json" where
  "js_object kvs = JObj (List.map_filter (\<lambda>(k, v). map_option (Pair k) v) kvs)"

text \<open>
  \<^verbatim>\<open>xs.slice(0, n)\<close>, where \<open>n\<close> is a JavaScript number that is an integer or
  \<^verbatim>\<open>NaN\<close> (\<open>None\<close>): \<^verbatim>\<open>NaN\<close> counts as 0, a negative \<open>n\<close> counts from the end.
\<close>

definition slice0 :: "int option \<Rightarrow> 'a list \<Rightarrow> 'a list" where
  "slice0 n xs =
     (case n of
        None \<Rightarrow> take 0 xs
      | Some k \<Rightarrow> if k < 0 then take (nat (int (length xs) + k)) xs else take (nat k) xs)"

subsection \<open>The runtime: what JavaScript and the libraries compute\<close>

record runtime =
  getTime :: "string \<Rightarrow> int option"
    \<comment> \<open>\<^verbatim>\<open>new Date(s).getTime()\<close>; \<open>None\<close> is \<^verbatim>\<open>NaN\<close>\<close>
  toISOString :: "int \<Rightarrow> string"
    \<comment> \<open>\<^verbatim>\<open>new Date(ms).toISOString()\<close>\<close>
  parseInt :: "string \<Rightarrow> int option"
    \<comment> \<open>\<^verbatim>\<open>parseInt(s)\<close>; \<open>None\<close> is \<^verbatim>\<open>NaN\<close>\<close>
  stringify :: "json \<Rightarrow> string"
    \<comment> \<open>\<^verbatim>\<open>JSON.stringify(v)\<close>, as the bytes \<^verbatim>\<open>TextEncoder\<close> gives\<close>
  decodeBase64 :: "string \<Rightarrow> string option"
    \<comment> \<open>tweetnacl-util; \<open>None\<close> when it throws\<close>
  encodeBase64 :: "string \<Rightarrow> string"
  verify_detached :: "string \<Rightarrow> string \<Rightarrow> string \<Rightarrow> bool option"
    \<comment> \<open>\<^verbatim>\<open>nacl.sign.detached.verify(msg, sig, publicKey)\<close>; \<open>None\<close> when it throws\<close>
  sign_detached :: "string \<Rightarrow> string \<Rightarrow> string option"
    \<comment> \<open>\<^verbatim>\<open>nacl.sign.detached(msg, secretKey)\<close>; \<open>None\<close> when it throws\<close>
  sha256_hex :: "string \<Rightarrow> string"
    \<comment> \<open>\<^verbatim>\<open>crypto.createHash('sha256').update(s).digest('hex')\<close>\<close>

subsection \<open>Configuration\<close>

definition RATE_WINDOW_MS :: int where
  "RATE_WINDOW_MS = 60000"

definition RATE_MAX_REQUESTS :: nat where
  "RATE_MAX_REQUESTS = 10"

definition NONCE_EXPIRY_MS :: int where
  "NONCE_EXPIRY_MS = 300000"

record capability =
  cap_type :: string
  cap_description :: string

text \<open>\<^verbatim>\<open>agentKeys\<close> and the part of \<^verbatim>\<open>manifest\<close> the handlers read.\<close>

record config =
  publicKey :: string
  secretKey :: string
  capabilities :: "capability list"

subsection \<open>Records on the wire and on disk\<close>

record request =
  req_task_id :: string
  req_requester_id :: string
  req_task_type :: string
  req_description :: string
  req_params :: "json option"
  req_payment_offer :: "json option"
  req_callback_url :: "json option"
  req_deadline :: "json option"
  req_nonce :: string
  req_timestamp :: string
  req_signature :: string

text \<open>
  \<^verbatim>\<open>receiptData\<close>, and the receipt \<^verbatim>\<open>{...receiptData, agent_signature}\<close> that
  extends it.
\<close>

record receipt_data =
  rc_task_id :: string
  rc_requester_id :: string
  rc_agent_id :: string
  rc_task_type :: string
  rc_completion_timestamp :: int
  rc_result_hash :: string
  rc_payment_proof :: json

record receipt = receipt_data +
  rc_agent_signature :: string

record task =
  task_id :: string
  requester_id :: string
  task_type :: string
  description :: string
  params :: json
  payment_offer :: json
  callback_url :: json
  deadline :: json
  nonce :: string
  timestamp :: string
  status :: string
  created :: int
  updated :: int
  result :: json
  receipt :: "receipt option"
  rejection_reason :: "json option"

text \<open>
  The process state: the two in-memory maps and the two data directories.
\<close>

record server_state =
  rateBuckets :: "string \<rightharpoonup> int list"
  seenNonces :: "string \<rightharpoonup> int"
  tasks_dir :: "(string \<times> task) list"
  receipts_dir :: "(string \<times> receipt) list"

definition init_state :: server_state where
  "init_state = \<lparr> rateBuckets = Map.empty, seenNonces = Map.empty,
                   tasks_dir = [], receipts_dir = [] \<rparr>"

subsection \<open>Helpers\<close>

text \<open>The body of the \<^verbatim>\<open>try\<close> block of \<^verbatim>\<open>verifySignature\<close>; \<open>None\<close> when it throws.\<close>

definition verifySignature_try :: "runtime \<Rightarrow> json \<Rightarrow> string \<Rightarrow> string \<Rightarrow> bool option" where
  "verifySignature_try R message signature pubKey =
     (case decodeBase64 R signature of
        None \<Rightarrow> None
      | Some sigBytes \<Rightarrow>
          (case decodeBase64 R pubKey of
             None \<Rightarrow> None
           | Some pubBytes \<Rightarrow> verify_detached R (stringify R message) sigBytes pubBytes))"

text \<open>\<^verbatim>\<open>verifySignature\<close>: the \<^verbatim>\<open>catch\<close> turns every throw into \<^verbatim>\<open>false\<close>.\<close>

definition verifySignature :: "runtime \<Rightarrow> json \<Rightarrow> string \<Rightarrow> string \<Rightarrow> bool" where
  "verifySignature R message signature pubKey =
     (case verifySignature_try R message signature pubKey of
        None \<Rightarrow> False
      | Some b \<Rightarrow> b)"

text \<open>\<^verbatim>\<open>signMessage\<close>; it has no \<^verbatim>\<open>try\<close>, so \<open>None\<close> is a throw that reaches the caller.\<close>

definition signMessage :: "runtime \<Rightarrow> config \<Rightarrow> json \<Rightarrow> string option" where
  "signMessage R C message =
     (case decodeBase64 R (secretKey C) of
        None \<Rightarrow> None
      | Some sk \<Rightarrow> map_option (encodeBase64 R) (sign_detached R (stringify R message) sk))"

text \<open>
  \<^verbatim>\<open>checkRateLimit\<close>: the answer and the buckets it leaves. \<open>now\<close> is its read of the
  clock.
\<close>

definition checkRateLimit ::
  "int \<Rightarrow> string \<Rightarrow> (string \<rightharpoonup> int list) \<Rightarrow> bool \<times> (string \<rightharpoonup> int list)" where
  "checkRateLimit now requesterId rb =
     (let rb1 = (case rb requesterId of None \<Rightarrow> rb(requesterId \<mapsto> []) | Some b \<Rightarrow> rb);
          bucket = filter (\<lambda>ts. now - ts < RATE_WINDOW_MS)
                     (case rb1 requesterId of None \<Rightarrow> [] | Some b \<Rightarrow> b)
      in if length bucket \<ge> RATE_MAX_REQUESTS then (False, rb1)
         else (True, rb1(requesterId \<mapsto> bucket @ [now])))"

text \<open>
  \<^verbatim>\<open>checkNonce\<close>: the answer and the nonce map it leaves. A comparison with
  \<^verbatim>\<open>NaN\<close> is false, so an unparsable timestamp is not rejected by the first test.
\<close>

definition checkNonce ::
  "runtime \<Rightarrow> int \<Rightarrow> string \<Rightarrow> string \<Rightarrow> (string \<rightharpoonup> int) \<Rightarrow> bool \<times> (string \<rightharpoonup> int)" where
  "checkNonce R now n tstamp sn =
     (let ts = getTime R tstamp
      in if (case ts of None \<Rightarrow> False | Some t \<Rightarrow> \<bar>now - t\<bar> > NONCE_EXPIRY_MS) then (False, sn)
         else if sn n \<noteq> None then (False, sn)
         else (True, sn(n \<mapsto> now)))"

text \<open>The sweep run every 30 seconds: entries older than twice the expiry are deleted.\<close>

definition pruneNonces :: "int \<Rightarrow> (string \<rightharpoonup> int) \<Rightarrow> (string \<rightharpoonup> int)" where
  "pruneNonces now sn =
     (\<lambda>n. case sn n of
             None \<Rightarrow> None
           | Some ts \<Rightarrow> if now - ts > NONCE_EXPIRY_MS * 2 then None else Some ts)"

subsection \<open>Paths and files\<close>

text \<open>
  The segments of a path string: the pieces between the \<^verbatim>\<open>/\<close> characters.
\<close>

fun split_path :: "string \<Rightarrow> string list" where
  "split_path [] = [[]]"
| "split_path (c # cs) =
     (if c = CHR ''/'' then [] # split_path cs
      else (case split_path cs of [] \<Rightarrow> [[c]] | s # ss \<Rightarrow> (c # s) # ss))"

text \<open>
  Normalisation as \<^verbatim>\<open>path.join\<close> does it: an empty segment and \<^verbatim>\<open>.\<close> are dropped,
  \<^verbatim>\<open>..\<close> removes the segment before it. The first argument is the path so far, innermost
  segment first. Paths are relative to \<^verbatim>\<open>__dirname\<close>; \<open>None\<close> is a path that climbs
  above it, where the names of the directories are not known here.
\<close>

fun normalize :: "string list \<Rightarrow> string list \<Rightarrow> string list option" where
  "normalize stk [] = Some (rev stk)"
| "normalize stk (s # ss) =
     (if s = [] \<or> s = ''.'' then normalize stk ss
      else if s = ''..'' then (case stk of [] \<Rightarrow> None | d # stk' \<Rightarrow> normalize stk' ss)
      else normalize (s # stk) ss)"

text \<open>\<^verbatim>\<open>path.join(dir, file)\<close>, for a directory given by its segments below \<^verbatim>\<open>__dirname\<close>.\<close>

definition path_join :: "string list \<Rightarrow> string \<Rightarrow> string list option" where
  "path_join dir file = normalize (rev dir) (split_path file)"

definition TASKS_DIR :: "string list" where
  "TASKS_DIR = [''data'', ''tasks'']"

definition RECEIPTS_DIR :: "string list" where
  "RECEIPTS_DIR = [''data'', ''receipts'']"

text \<open>The longest file name the file system takes, in bytes.\<close>

definition NAME_MAX :: nat where
  "NAME_MAX = 255"

text \<open>
  Where \<^verbatim>\<open>path.join(dir, file)\<close> lies with respect to \<open>dir\<close>: it is a file name directly
  in it, or a path into a subdirectory of it, or a path that leaves \<open>dir\<close> (one that climbs
  above \<^verbatim>\<open>__dirname\<close> counts as leaving it: where it comes down is not followed).
\<close>

datatype place =
    InDir string
  | Below
  | Elsewhere

definition locate :: "string list \<Rightarrow> string \<Rightarrow> place" where
  "locate dir file =
     (case path_join dir file of
        None \<Rightarrow> Elsewhere
      | Some p \<Rightarrow>
          if length dir < length p \<and> take (length dir) p = dir then
            (if length p = Suc (length dir) then InDir (last p) else Below)
          else Elsewhere)"

text \<open>
  What a file operation comes to: it is done (with its value), it throws, or it touches a
  file outside the directory, which this state does not hold.
\<close>

datatype 'a outcome =
    Done 'a
  | Thrown
  | Outside

text \<open>
  \<^verbatim>\<open>existsSync(p) ? JSON.parse(readFileSync(p)) : null\<close> for
  \<^verbatim>\<open>p = path.join(dir, file)\<close>. \<^verbatim>\<open>existsSync\<close> never throws: a path with a NUL
  byte, a name that is too long and a path into a subdirectory (there is none) do not
  exist.
\<close>

definition read_file :: "string list \<Rightarrow> (string \<times> 'a) list \<Rightarrow> string \<Rightarrow> 'a option outcome" where
  "read_file dir entries file =
     (if CHR 0x00 \<in> set file then Done None
      else (case locate dir file of
              InDir f \<Rightarrow> Done (if NAME_MAX < length f then None else map_of entries f)
            | Below \<Rightarrow> Done None
            | Elsewhere \<Rightarrow> Outside))"

text \<open>
  \<^verbatim>\<open>writeFileSync(path.join(dir, file), x)\<close>: it throws on a NUL byte, on a name that is
  too long (\<^verbatim>\<open>ENAMETOOLONG\<close>) and on a path into a subdirectory (\<^verbatim>\<open>ENOENT\<close>,
  \<^verbatim>\<open>ENOTDIR\<close>); otherwise it replaces or adds the file.
\<close>

definition write_file ::
  "string list \<Rightarrow> (string \<times> 'a) list \<Rightarrow> string \<Rightarrow> 'a \<Rightarrow> (string \<times> 'a) list outcome" where
  "write_file dir entries file x =
     (if CHR 0x00 \<in> set file then Thrown
      else (case locate dir file of
              InDir f \<Rightarrow> if NAME_MAX < length f then Thrown else Done (AList.update f x entries)
            | Below \<Rightarrow> Thrown
            | Elsewhere \<Rightarrow> Outside))"

definition file_name :: "string \<Rightarrow> string" where
  "file_name ident = ident @ ''.json''"

definition loadTask :: "server_state \<Rightarrow> string \<Rightarrow> task option outcome" where
  "loadTask st taskId = read_file TASKS_DIR (tasks_dir st) (file_name taskId)"

definition saveTask :: "task \<Rightarrow> server_state \<Rightarrow> server_state outcome" where
  "saveTask t st =
     (case write_file TASKS_DIR (tasks_dir st) (file_name (task_id t)) t of
        Done d \<Rightarrow> Done (st\<lparr> tasks_dir := d \<rparr>)
      | Thrown \<Rightarrow> Thrown
      | Outside \<Rightarrow> Outside)"

definition saveReceipt :: "receipt \<Rightarrow> server_state \<Rightarrow> server_state outcome" where
  "saveReceipt r st =
     (case write_file RECEIPTS_DIR (receipts_dir st) (file_name (rc_task_id r)) r of
        Done d \<Rightarrow> Done (st\<lparr> receipts_dir := d \<rparr>)
      | Thrown \<Rightarrow> Thrown
      | Outside \<Rightarrow> Outside)"

subsection \<open>Responses\<close>

record error_body =
  err_kind :: string
  err_message :: "string option"
  err_supported :: "string list option"

text \<open>
  What a handler answers: a success with its HTTP status and body, a failure with its
  HTTP status and error body, or an exception that escapes the handler (Express then
  answers 500). \<open>Unfollowed\<close> is not an answer: the handler read or wrote a file outside
  its directory, and what it answers depends on files this state does not hold.
\<close>

datatype 'a reply =
    Reply nat 'a
  | Failure nat error_body
  | Uncaught
  | Unfollowed

definition failure :: "nat \<Rightarrow> string \<Rightarrow> string option \<Rightarrow> 'a reply" where
  "failure c k m = Failure c \<lparr> err_kind = k, err_message = m, err_supported = None \<rparr>"

record accepted =
  acc_status :: string
  acc_task_id :: string
  acc_message :: string
  acc_status_url :: string

record status_view =
  sv_task_id :: string
  sv_status :: string
  sv_task_type :: string
  sv_created :: int
  sv_updated :: int
  sv_result :: json
  sv_receipt :: "receipt option"

record completed =
  cmp_status :: string
  cmp_task_id :: string
  cmp_receipt :: receipt

record rejected =
  rej_status :: string
  rej_task_id :: string
  rej_reason :: json

record receipt_list =
  rl_agent_id :: string
  rl_total :: nat
  rl_receipts :: "receipt list"

record task_summary =
  ts_task_id :: string
  ts_requester_id :: string
  ts_task_type :: string
  ts_description :: string
  ts_status :: string
  ts_created :: int
  ts_updated :: int

record task_list =
  tl_total :: nat
  tl_tasks :: "task_summary list"

subsection \<open>POST /inbox\<close>

text \<open>The four reads of the clock of the handler, in order.\<close>

record submit_clock =
  rate_now :: int
  nonce_now :: int
  created_now :: int
  updated_now :: int

definition messageToVerify :: "request \<Rightarrow> json" where
  "messageToVerify req =
     js_object
       [(''task_id'', Some (JStr (req_task_id req))),
        (''requester_id'', Some (JStr (req_requester_id req))),
        (''task_type'', Some (JStr (req_task_type req))),
        (''description'', Some (JStr (req_description req))),
        (''params'', req_params req),
        (''payment_offer'', req_payment_offer req),
        (''callback_url'', req_callback_url req),
        (''deadline'', req_deadline req),
        (''nonce'', Some (JStr (req_nonce req))),
        (''timestamp'', Some (JStr (req_timestamp req)))]"

text \<open>The message of the replay failure; its \<^verbatim>\<open>+-\<close> sign is the two bytes of UTF-8.\<close>

definition invalid_nonce_message :: string where
  "invalid_nonce_message =
     ''Nonce already seen or timestamp out of range ('' @ [CHR 0xC2, CHR 0xB1] @ ''5 minutes)''"

definition missing_fields :: "request \<Rightarrow> bool" where
  "missing_fields req \<longleftrightarrow>
     req_task_id req = [] \<or> req_requester_id req = [] \<or> req_task_type req = [] \<or>
     req_description req = [] \<or> req_nonce req = [] \<or> req_timestamp req = [] \<or>
     req_signature req = []"

definition hasCapability :: "config \<Rightarrow> string \<Rightarrow> bool" where
  "hasCapability C ty = list_ex (\<lambda>c. cap_type c = ty) (capabilities C)"

definition new_task :: "submit_clock \<Rightarrow> request \<Rightarrow> task" where
  "new_task clk req =
     \<lparr> task_id = req_task_id req,
       requester_id = req_requester_id req,
       task_type = req_task_type req,
       description = req_description req,
       params = or_null (req_params req),
       payment_offer = or_null (req_payment_offer req),
       callback_url = or_null (req_callback_url req),
       deadline = or_null (req_deadline req),
       nonce = req_nonce req,
       timestamp = req_timestamp req,
       status = ''pending'',
       created = created_now clk,
       updated = updated_now clk,
       result = JNull,
       receipt = None,
       rejection_reason = None \<rparr>"

definition post_inbox ::
  "runtime \<Rightarrow> config \<Rightarrow> submit_clock \<Rightarrow> request \<Rightarrow> server_state
     \<Rightarrow> accepted reply \<times> server_state" where
  "post_inbox R C clk req st =
     (if missing_fields req then
        (failure 400 ''missing_fields''
           (Some ''Required: task_id, requester_id, task_type, description, nonce, timestamp, signature''),
         st)
      else
        let (ok1, rb) = checkRateLimit (rate_now clk) (req_requester_id req) (rateBuckets st);
            st1 = st\<lparr> rateBuckets := rb \<rparr>
        in if \<not> ok1 then
             (failure 429 ''rate_limited'' (Some ''Max 10 requests per 60s per requester''), st1)
           else
             let (ok2, sn) = checkNonce R (nonce_now clk) (req_nonce req) (req_timestamp req)
                               (seenNonces st1);
                 st2 = st1\<lparr> seenNonces := sn \<rparr>
             in if \<not> ok2 then
                  (failure 400 ''invalid_nonce''
                     (Some invalid_nonce_message),
                   st2)
                else if \<not> verifySignature R (messageToVerify req) (req_signature req)
                            (req_requester_id req) then
                  (failure 401 ''invalid_signature'' (Some ''Signature verification failed''), st2)
                else if \<not> hasCapability C (req_task_type req) then
                  (Failure 404
                     \<lparr> err_kind = ''capability_not_found'',
                       err_message =
                         Some (''This agent does not support task type: '' @ req_task_type req),
                       err_supported = Some (map cap_type (capabilities C)) \<rparr>,
                   st2)
                else
                  (case saveTask (new_task clk req) st2 of
                     Thrown \<Rightarrow> (Uncaught, st2)
                   | Outside \<Rightarrow> (Unfollowed, st2)
                   | Done st3 \<Rightarrow>
                       (Reply 201
                          \<lparr> acc_status = ''accepted'',
                            acc_task_id = req_task_id req,
                            acc_message = ''Task received and queued for evaluation'',
                            acc_status_url = ''/tasks/'' @ req_task_id req @ ''/status'' \<rparr>,
                        st3)))"

subsection \<open>GET /tasks/:id/status\<close>

definition get_task_status :: "server_state \<Rightarrow> string \<Rightarrow> status_view reply" where
  "get_task_status st ident =
     (case loadTask st ident of
        Outside \<Rightarrow> Unfollowed
      | Thrown \<Rightarrow> Uncaught
      | Done None \<Rightarrow> failure 404 ''not_found'' (Some ''Task not found'')
      | Done (Some t) \<Rightarrow>
          Reply 200
            \<lparr> sv_task_id = task_id t,
              sv_status = status t,
              sv_task_type = task_type t,
              sv_created = created t,
              sv_updated = updated t,
              sv_result = (if status t = ''completed'' then result t else JNull),
              sv_receipt = receipt t \<rparr>)"

subsection \<open>POST /tasks/:id/complete\<close>

text \<open>The two reads of the clock: the completion timestamp, then \<^verbatim>\<open>task.updated\<close>.\<close>

record complete_clock =
  completion_now :: int
  complete_updated_now :: int

text \<open>\<^verbatim>\<open>receiptData\<close> as the object that is signed, its seven properties in order.\<close>

definition receiptData_json :: "runtime \<Rightarrow> 'a receipt_data_scheme \<Rightarrow> json" where
  "receiptData_json R d =
     JObj
       [(''task_id'', JStr (rc_task_id d)),
        (''requester_id'', JStr (rc_requester_id d)),
        (''agent_id'', JStr (rc_agent_id d)),
        (''task_type'', JStr (rc_task_type d)),
        (''completion_timestamp'', JStr (toISOString R (rc_completion_timestamp d))),
        (''result_hash'', JStr (rc_result_hash d)),
        (''payment_proof'', rc_payment_proof d)]"

definition build_receiptData ::
  "runtime \<Rightarrow> config \<Rightarrow> int \<Rightarrow> task \<Rightarrow> json \<Rightarrow> json option \<Rightarrow> receipt_data" where
  "build_receiptData R C now t res payment_proof =
     \<lparr> rc_task_id = task_id t,
       rc_requester_id = requester_id t,
       rc_agent_id = publicKey C,
       rc_task_type = task_type t,
       rc_completion_timestamp = now,
       rc_result_hash = sha256_hex R (stringify R res),
       rc_payment_proof = or_null payment_proof \<rparr>"

definition with_signature :: "receipt_data \<Rightarrow> string \<Rightarrow> receipt" where
  "with_signature d sg =
     \<lparr> rc_task_id = rc_task_id d,
       rc_requester_id = rc_requester_id d,
       rc_agent_id = rc_agent_id d,
       rc_task_type = rc_task_type d,
       rc_completion_timestamp = rc_completion_timestamp d,
       rc_result_hash = rc_result_hash d,
       rc_payment_proof = rc_payment_proof d,
       rc_agent_signature = sg \<rparr>"

definition post_complete ::
  "runtime \<Rightarrow> config \<Rightarrow> complete_clock \<Rightarrow> string \<Rightarrow> json option \<Rightarrow> json option
     \<Rightarrow> server_state \<Rightarrow> completed reply \<times> server_state" where
  "post_complete R C clk ident res payment_proof st =
     (case loadTask st ident of
        Outside \<Rightarrow> (Unfollowed, st)
      | Thrown \<Rightarrow> (Uncaught, st)
      | Done None \<Rightarrow> (failure 404 ''not_found'' None, st)
      | Done (Some t) \<Rightarrow>
          (case res of
             None \<Rightarrow> (failure 400 ''missing_result'' None, st)
           | Some r \<Rightarrow>
               if \<not> truthy r then (failure 400 ''missing_result'' None, st)
               else
                 let d = build_receiptData R C (completion_now clk) t r payment_proof
                 in (case signMessage R C (receiptData_json R d) of
                       None \<Rightarrow> (Uncaught, st)
                     | Some sg \<Rightarrow>
                         let rcpt = with_signature d sg;
                             t' = t\<lparr> status := ''completed'', result := r,
                                     receipt := Some rcpt,
                                     updated := complete_updated_now clk \<rparr>
                         in (case saveTask t' st of
                               Thrown \<Rightarrow> (Uncaught, st)
                             | Outside \<Rightarrow> (Unfollowed, st)
                             | Done st1 \<Rightarrow>
                                 (case saveReceipt rcpt st1 of
                                    Thrown \<Rightarrow> (Uncaught, st1)
                                  | Outside \<Rightarrow> (Unfollowed, st1)
                                  | Done st2 \<Rightarrow>
                                      (Reply 200
                                         \<lparr> cmp_status = ''completed'',
                                           cmp_task_id = task_id t',
                                           cmp_receipt = rcpt \<rparr>,
                                       st2))))))"

subsection \<open>POST /tasks/:id/reject\<close>

definition post_reject ::
  "int \<Rightarrow> string \<Rightarrow> json option \<Rightarrow> server_state \<Rightarrow> rejected reply \<times> server_state" where
  "post_reject now ident reason st =
     (case loadTask st ident of
        Outside \<Rightarrow> (Unfollowed, st)
      | Thrown \<Rightarrow> (Uncaught, st)
      | Done None \<Rightarrow> (failure 404 ''not_found'' None, st)
      | Done (Some t) \<Rightarrow>
          let t' = t\<lparr> status := ''rejected'', updated := now,
                      rejection_reason :=
                        Some (or_default reason (JStr ''No reason given'')) \<rparr>
          in (case saveTask t' st of
                Thrown \<Rightarrow> (Uncaught, st)
              | Outside \<Rightarrow> (Unfollowed, st)
              | Done st1 \<Rightarrow>
                  (Reply 200
                     \<lparr> rej_status = ''rejected'', rej_task_id = task_id t',
                       rej_reason = or_default reason (JStr ''No reason given'') \<rparr>,
                   st1)))"

subsection \<open>GET /receipts and GET /tasks\<close>

text \<open>The records of the files of a directory whose name ends in \<^verbatim>\<open>.json\<close>.\<close>

definition json_files :: "(string \<times> 'a) list \<Rightarrow> 'a list" where
  "json_files dir = map snd (filter (\<lambda>(f, x). suffix ''.json'' f) dir)"

definition get_receipts ::
  "runtime \<Rightarrow> config \<Rightarrow> string option \<Rightarrow> string option \<Rightarrow> string option
     \<Rightarrow> server_state \<Rightarrow> receipt_list reply" where
  "get_receipts R C agent_id ty limit st =
     (let r0 = json_files (receipts_dir st);
          r1 = (if truthy_str agent_id then filter (\<lambda>r. Some (rc_agent_id r) = agent_id) r0
                else r0);
          r2 = (if truthy_str ty then filter (\<lambda>r. Some (rc_task_type r) = ty) r1 else r1);
          r3 = sort_key (\<lambda>r. - rc_completion_timestamp r) r2;
          r4 = (case limit of
                  None \<Rightarrow> r3
                | Some l \<Rightarrow> if l \<noteq> [] then slice0 (parseInt R l) r3 else r3)
      in Reply 200 \<lparr> rl_agent_id = publicKey C, rl_total = length r4, rl_receipts = r4 \<rparr>)"

definition summary :: "task \<Rightarrow> task_summary" where
  "summary t =
     \<lparr> ts_task_id = task_id t,
       ts_requester_id = requester_id t,
       ts_task_type = task_type t,
       ts_description = take 200 (description t),
       ts_status = status t,
       ts_created = created t,
       ts_updated = updated t \<rparr>"

definition get_tasks ::
  "runtime \<Rightarrow> string option \<Rightarrow> string option \<Rightarrow> server_state \<Rightarrow> task_list reply" where
  "get_tasks R st_filter limit st =
     (let t0 = map summary (json_files (tasks_dir st));
          t1 = (if truthy_str st_filter then filter (\<lambda>t. Some (ts_status t) = st_filter) t0
                else t0);
          t2 = sort_key (\<lambda>t. - ts_created t) t1;
          t3 = (case limit of
                  None \<Rightarrow> t2
                | Some l \<Rightarrow> if l \<noteq> [] then slice0 (parseInt R l) t2 else t2)
      in Reply 200 \<lparr> tl_total = length t3, tl_tasks = t3 \<rparr>)"

subsection \<open>Runs of the server\<close>

text \<open>
  What can happen to the state: a request to one of the three writing routes, or a tick of
  the nonce sweep (with its read of the clock).
\<close>

datatype event =
    Submit submit_clock request
  | Complete complete_clock string "json option" "json option"
  | Reject int string "json option"
  | Sweep int

fun step :: "runtime \<Rightarrow> config \<Rightarrow> server_state \<Rightarrow> event \<Rightarrow> server_state" where
  "step R C st (Submit clk req) = snd (post_inbox R C clk req st)"
| "step R C st (Complete clk ident res pp) = snd (post_complete R C clk ident res pp st)"
| "step R C st (Reject now ident reason) = snd (post_reject now ident reason st)"
| "step R C st (Sweep now) = st\<lparr> seenNonces := pruneNonces now (seenNonces st) \<rparr>"

definition run :: "runtime \<Rightarrow> config \<Rightarrow> server_state \<Rightarrow> event list \<Rightarrow> server_state" where
  "run R C st evs = foldl (step R C) st evs"


subsection \<open>Notions the statements use\<close>

text \<open>The timestamps of a requester's bucket that are inside the rate window at \<open>now\<close>.\<close>

definition recent :: "int \<Rightarrow> string \<Rightarrow> (string \<rightharpoonup> int list) \<Rightarrow> int list" where
  "recent now requesterId rb =
     filter (\<lambda>ts. now - ts < 60000) (case rb requesterId of None \<Rightarrow> [] | Some b \<Rightarrow> b)"

text \<open>
  A task id that is a plain file name: no \<^verbatim>\<open>/\<close>, no NUL byte, and short enough for
  \<^verbatim>\<open>id.json\<close> to be a file name. A UUID is one.
\<close>

definition plain_id :: "string \<Rightarrow> bool" where
  "plain_id ident \<longleftrightarrow>
     CHR ''/'' \<notin> set ident \<and> CHR 0x00 \<notin> set ident \<and> length ident + 5 \<le> 255"

text \<open>
  Every task of the task directory has a plain id and is stored in the file named after it,
  \<^verbatim>\<open>${task_id}.json\<close>. This holds as long as only tasks with plain ids are submitted.
\<close>

definition store_ok :: "server_state \<Rightarrow> bool" where
  "store_ok st =
     list_all (\<lambda>(f, t). plain_id (task_id t) \<and> f = file_name (task_id t)) (tasks_dir st)"

text \<open>
  The agent's key pair works: both keys decode, signing with the secret key succeeds, and
  what is signed verifies under the public key after a round trip through base64.
\<close>

definition keypair_ok :: "runtime \<Rightarrow> config \<Rightarrow> bool" where
  "keypair_ok R C \<longleftrightarrow>
     (\<exists>sk pk. decodeBase64 R (secretKey C) = Some sk \<and> decodeBase64 R (publicKey C) = Some pk \<and>
        (\<forall>m. \<exists>sg. sign_detached R m sk = Some sg \<and>
           decodeBase64 R (encodeBase64 R sg) = Some sg \<and>
           verify_detached R m sg pk = Some True))"

text \<open>No bucket holds more than ten timestamps.\<close>

definition buckets_bounded :: "(string \<rightharpoonup> int list) \<Rightarrow> bool" where
  "buckets_bounded rb \<longleftrightarrow> (\<forall>rid b. rb rid = Some b \<longrightarrow> length b \<le> 10)"

text \<open>The requester's bucket once the request has been counted.\<close>

definition bucket_after :: "submit_clock \<Rightarrow> request \<Rightarrow> server_state \<Rightarrow> (string \<rightharpoonup> int list)" where
  "bucket_after clk req st =
     (rateBuckets st)(req_requester_id req \<mapsto>
        recent (rate_now clk) (req_requester_id req) (rateBuckets st) @ [rate_now clk])"

text \<open>
  The replay check turns the request down: its timestamp parses to a time more than five
  minutes from the clock, or its nonce is in the map.
\<close>

definition nonce_rejected :: "runtime \<Rightarrow> submit_clock \<Rightarrow> request \<Rightarrow> server_state \<Rightarrow> bool" where
  "nonce_rejected R clk req st \<longleftrightarrow>
     (case getTime R (req_timestamp req) of
        None \<Rightarrow> False
      | Some t \<Rightarrow> \<bar>nonce_now clk - t\<bar> > 300000)
     \<or> seenNonces st (req_nonce req) \<noteq> None"

subsection \<open>A small runtime and sample data for concrete runs\<close>

text \<open>
  A stand-in runtime for evaluating the handlers on concrete requests. Dates: three ISO
  strings with the value JavaScript gives them, any other string unparsable.
  \<^verbatim>\<open>parseInt\<close>: the leading decimal digits, \<^verbatim>\<open>NaN\<close> when there are none.
  Base64 text is the raw text behind the prefix \<^verbatim>\<open>b64:\<close>, and decoding anything else
  throws. A signature is the message followed by the key, the public key being the secret
  key.
\<close>

definition sample_getTime :: "string \<Rightarrow> int option" where
  "sample_getTime s =
     (if s = ''1970-01-01T00:00:00.000Z'' then Some 0
      else if s = ''1970-01-01T00:05:00.000Z'' then Some 300000
      else if s = ''1970-01-01T00:10:00.000Z'' then Some 600000
      else None)"

fun digits_value :: "nat \<Rightarrow> string \<Rightarrow> nat" where
  "digits_value acc [] = acc"
| "digits_value acc (c # cs) = digits_value (10 * acc + (of_char c - 48)) cs"

definition sample_parseInt :: "string \<Rightarrow> int option" where
  "sample_parseInt s =
     (let ds = takeWhile (\<lambda>c. c \<in> set ''0123456789'') s
      in if ds = [] then None else Some (int (digits_value 0 ds)))"

fun sample_show :: "json \<Rightarrow> string" where
  "sample_show (JStr s) = s"
| "sample_show JNull = ''null''"
| "sample_show j = ''?''"

fun sample_stringify :: "json \<Rightarrow> string" where
  "sample_stringify (JObj kvs) = concat (map (\<lambda>(k, v). k @ '':'' @ sample_show v @ '';'') kvs)"
| "sample_stringify j = sample_show j"

fun sample_decodeBase64 :: "string \<Rightarrow> string option" where
  "sample_decodeBase64 (a # b # c # d # s) =
     (if [a, b, c, d] = ''b64:'' then Some s else None)"
| "sample_decodeBase64 s = None"

definition sample_runtime :: runtime where
  "sample_runtime =
     \<lparr> getTime = sample_getTime,
       toISOString = (\<lambda>t. if t = 0 then ''1970-01-01T00:00:00.000Z'' else ''later''),
       parseInt = sample_parseInt,
       stringify = sample_stringify,
       decodeBase64 = sample_decodeBase64,
       encodeBase64 = (\<lambda>s. ''b64:'' @ s),
       verify_detached = (\<lambda>m sg pk. Some (sg = m @ pk)),
       sign_detached = (\<lambda>m sk. Some (m @ sk)),
       sha256_hex = (\<lambda>s. ''sha256 of '' @ s) \<rparr>"

definition sample_config :: config where
  "sample_config =
     \<lparr> publicKey = ''b64:agent'', secretKey = ''b64:agent'',
       capabilities =
         [\<lparr> cap_type = ''research.web'', cap_description = ''Web research and OSINT'' \<rparr>,
          \<lparr> cap_type = ''code.review'', cap_description = ''Code auditing and security review'' \<rparr>] \<rparr>"

text \<open>
  What the client does before posting (\<^verbatim>\<open>sendTask\<close> of \<^verbatim>\<open>client.js\<close>): sign the
  serialized message with the requester's key and attach the encoded signature.
\<close>

definition sample_sign :: "string \<Rightarrow> request \<Rightarrow> request" where
  "sample_sign sk req =
     req\<lparr> req_signature := ''b64:'' @ sample_stringify (messageToVerify req) @ sk \<rparr>"

definition sample_request :: request where
  "sample_request =
     sample_sign ''alice''
       \<lparr> req_task_id = ''t1'', req_requester_id = ''b64:alice'',
         req_task_type = ''research.web'', req_description = ''x'',
         req_params = Some JNull, req_payment_offer = Some JNull,
         req_callback_url = Some JNull, req_deadline = Some JNull, req_nonce = ''n1'',
         req_timestamp = ''1970-01-01T00:00:00.000Z'', req_signature = [] \<rparr>"

text \<open>The sample request with a timestamp that is not a date, signed accordingly.\<close>

definition unparsable_request :: request where
  "unparsable_request = sample_sign ''alice'' (sample_request\<lparr> req_timestamp := ''not-a-date'' \<rparr>)"

text \<open>The sample request with a signature that is not base64 text.\<close>

definition forged_request :: request where
  "forged_request = sample_request\<lparr> req_signature := ''forged!'' \<rparr>"

text \<open>The sample request without its description.\<close>

definition incomplete_request :: request where
  "incomplete_request = sample_request\<lparr> req_description := [] \<rparr>"

definition clock_at :: "int \<Rightarrow> submit_clock" where
  "clock_at t = \<lparr> rate_now = t, nonce_now = t, created_now = t, updated_now = t \<rparr>"

definition sample_task :: task where
  "sample_task = new_task (clock_at 0) sample_request"

definition sample_receipt :: receipt where
  "sample_receipt =
     \<lparr> rc_task_id = ''t1'', rc_requester_id = ''b64:alice'', rc_agent_id = ''b64:agent'',
       rc_task_type = ''research.web'', rc_completion_timestamp = 0,
       rc_result_hash = ''sha256 of finding'', rc_payment_proof = JNull,
       rc_agent_signature = ''b64:signed'' \<rparr>"

text \<open>A state with one pending task, and one where that task is completed.\<close>

definition pending_state :: server_state where
  "pending_state = init_state\<lparr> tasks_dir := [(''t1.json'', sample_task)] \<rparr>"

definition completed_state :: server_state where
  "completed_state =
     init_state
       \<lparr> tasks_dir :=
           [(''t1.json'',
             sample_task\<lparr> status := ''completed'', result := JStr ''finding'',
                          receipt := Some sample_receipt \<rparr>)],
         receipts_dir := [(''t1.json'', sample_receipt)] \<rparr>"

text \<open>A state in which the requester has ten requests counted at time 590000.\<close>

definition full_bucket_state :: server_state where
  "full_bucket_state =
     init_state\<lparr> rateBuckets := [''b64:alice'' \<mapsto> replicate 10 590000] \<rparr>"

text \<open>A state in which the sample nonce was seen at time 0.\<close>

definition seen_state :: server_state where
  "seen_state = init_state\<lparr> seenNonces := [''n1'' \<mapsto> 0] \<rparr>"

text \<open>The sample request with another description, signed again: same nonce, new text.\<close>

definition changed_request :: request where
  "changed_request = sample_sign ''alice'' (sample_request\<lparr> req_description := ''y'' \<rparr>)"

text \<open>The sample request for a task type the agent does not offer, signed accordingly.\<close>

definition unsupported_request :: request where
  "unsupported_request = sample_sign ''alice'' (sample_request\<lparr> req_task_type := ''cooking'' \<rparr>)"

text \<open>
  The sample request under the task id \<^verbatim>\<open>a/b\<close>, and under \<^verbatim>\<open>../receipts/zz\<close>, signed
  accordingly.
\<close>

definition slash_request :: request where
  "slash_request = sample_sign ''alice'' (sample_request\<lparr> req_task_id := ''a/b'' \<rparr>)"

definition dotdot_request :: request where
  "dotdot_request = sample_sign ''alice'' (sample_request\<lparr> req_task_id := ''../receipts/zz'' \<rparr>)"

text \<open>A state with one rejected task.\<close>

definition rejected_state :: server_state where
  "rejected_state =
     init_state
       \<lparr> tasks_dir :=
           [(''t1.json'',
             sample_task\<lparr> status := ''rejected'',
                          rejection_reason := Some (JStr ''No reason given'') \<rparr>)] \<rparr>"

definition complete_at :: "int \<Rightarrow> complete_clock" where
  "complete_at t = \<lparr> completion_now = t, complete_updated_now = t \<rparr>"

section \<open>Properties\<close>

subsection \<open>Paths\<close>

lemma split_path_plain: "CHR ''/'' \<notin> set s \<Longrightarrow> split_path s = [s]"
  by (induction s) auto

lemma file_name_not_special:
  "file_name ident \<noteq> []" "file_name ident \<noteq> ''.''" "file_name ident \<noteq> ''..''"
proof -
  have "5 \<le> length (file_name ident)" by (simp add: file_name_def)
  then show "file_name ident \<noteq> []" "file_name ident \<noteq> ''.''" "file_name ident \<noteq> ''..''"
    by auto
qed

text \<open>A plain id names a file directly in the directory, whatever the directory is.\<close>

lemma locate_plain:
  assumes "plain_id ident"
  shows "locate dir (file_name ident) = InDir (file_name ident)"
proof -
  from assms have "CHR ''/'' \<notin> set (file_name ident)"
    by (simp add: plain_id_def file_name_def)
  then have "split_path (file_name ident) = [file_name ident]"
    by (rule split_path_plain)
  then have "path_join dir (file_name ident) = Some (dir @ [file_name ident])"
    by (simp add: path_join_def file_name_not_special)
  then show ?thesis by (simp add: locate_def)
qed

lemma plain_id_name:
  assumes "plain_id ident"
  shows "CHR 0x00 \<notin> set (file_name ident)" and "\<not> NAME_MAX < length (file_name ident)"
  using assms by (simp_all add: plain_id_def file_name_def NAME_MAX_def)

lemma loadTask_plain:
  "plain_id ident \<Longrightarrow> loadTask st ident = Done (map_of (tasks_dir st) (file_name ident))"
  by (simp add: loadTask_def read_file_def locate_plain plain_id_name)

lemma saveTask_plain:
  "plain_id (task_id t) \<Longrightarrow>
     saveTask t st = Done (st\<lparr> tasks_dir := AList.update (file_name (task_id t)) t (tasks_dir st) \<rparr>)"
  by (simp add: saveTask_def write_file_def locate_plain plain_id_name)

lemma saveReceipt_plain:
  "plain_id (rc_task_id r) \<Longrightarrow>
     saveReceipt r st =
       Done (st\<lparr> receipts_dir := AList.update (file_name (rc_task_id r)) r (receipts_dir st) \<rparr>)"
  by (simp add: saveReceipt_def write_file_def locate_plain plain_id_name)

text \<open>A write touches the one directory only, and never the maps in memory.\<close>

lemma saveTask_Done:
  assumes "saveTask t st = Done st'"
  shows "\<exists>d. st' = st\<lparr> tasks_dir := d \<rparr>"
  using assms by (auto simp add: saveTask_def split: outcome.splits)

lemma saveReceipt_Done:
  assumes "saveReceipt r st = Done st'"
  shows "\<exists>d. st' = st\<lparr> receipts_dir := d \<rparr>"
  using assms by (auto simp add: saveReceipt_def split: outcome.splits)

subsection \<open>The two checks and the pipeline\<close>

lemma checkRateLimit_eq:
  "checkRateLimit now rid rb =
     (if RATE_MAX_REQUESTS \<le> length (recent now rid rb) then (False, rb)
      else (True, rb(rid \<mapsto> recent now rid rb @ [now])))"
  by (simp add: checkRateLimit_def recent_def RATE_WINDOW_MS_def RATE_MAX_REQUESTS_def Let_def
      split: option.splits)

lemma checkNonce_eq:
  "checkNonce R now n ts sn =
     (if (\<exists>t. getTime R ts = Some t \<and> \<bar>now - t\<bar> > NONCE_EXPIRY_MS) \<or> sn n \<noteq> None
      then (False, sn)
      else (True, sn(n \<mapsto> now)))"
  by (auto simp add: checkNonce_def Let_def split: option.splits)

text \<open>The handler of \<^verbatim>\<open>POST /inbox\<close> as the chain of its five checks and the write.\<close>

lemma post_inbox_cases:
  "post_inbox R C clk req st =
     (if missing_fields req then
        (failure 400 ''missing_fields''
           (Some ''Required: task_id, requester_id, task_type, description, nonce, timestamp, signature''),
         st)
      else if RATE_MAX_REQUESTS
                \<le> length (recent (rate_now clk) (req_requester_id req) (rateBuckets st)) then
        (failure 429 ''rate_limited'' (Some ''Max 10 requests per 60s per requester''), st)
      else if nonce_rejected R clk req st then
        (failure 400 ''invalid_nonce'' (Some invalid_nonce_message),
         st\<lparr> rateBuckets := bucket_after clk req st \<rparr>)
      else if \<not> verifySignature R (messageToVerify req) (req_signature req)
                  (req_requester_id req) then
        (failure 401 ''invalid_signature'' (Some ''Signature verification failed''),
         st\<lparr> rateBuckets := bucket_after clk req st,
             seenNonces := (seenNonces st)(req_nonce req \<mapsto> nonce_now clk) \<rparr>)
      else if \<not> hasCapability C (req_task_type req) then
        (Failure 404
           \<lparr> err_kind = ''capability_not_found'',
             err_message = Some (''This agent does not support task type: '' @ req_task_type req),
             err_supported = Some (map cap_type (capabilities C)) \<rparr>,
         st\<lparr> rateBuckets := bucket_after clk req st,
             seenNonces := (seenNonces st)(req_nonce req \<mapsto> nonce_now clk) \<rparr>)
      else
        (case saveTask (new_task clk req)
                (st\<lparr> rateBuckets := bucket_after clk req st,
                     seenNonces := (seenNonces st)(req_nonce req \<mapsto> nonce_now clk) \<rparr>) of
           Thrown \<Rightarrow>
             (Uncaught,
              st\<lparr> rateBuckets := bucket_after clk req st,
                  seenNonces := (seenNonces st)(req_nonce req \<mapsto> nonce_now clk) \<rparr>)
         | Outside \<Rightarrow>
             (Unfollowed,
              st\<lparr> rateBuckets := bucket_after clk req st,
                  seenNonces := (seenNonces st)(req_nonce req \<mapsto> nonce_now clk) \<rparr>)
         | Done st3 \<Rightarrow>
             (Reply 201
                \<lparr> acc_status = ''accepted'', acc_task_id = req_task_id req,
                  acc_message = ''Task received and queued for evaluation'',
                  acc_status_url = ''/tasks/'' @ req_task_id req @ ''/status'' \<rparr>,
              st3)))"
  by (auto simp add: post_inbox_def checkRateLimit_eq checkNonce_eq nonce_rejected_def
      bucket_after_def NONCE_EXPIRY_MS_def split: option.splits outcome.splits)

text \<open>With a plain task id the write is done in the task directory.\<close>

lemma post_inbox_plain:
  assumes "plain_id (req_task_id req)"
    and "\<not> missing_fields req"
    and "length (recent (rate_now clk) (req_requester_id req) (rateBuckets st)) < 10"
    and "\<not> nonce_rejected R clk req st"
    and "verifySignature R (messageToVerify req) (req_signature req) (req_requester_id req)"
    and "hasCapability C (req_task_type req)"
  shows "post_inbox R C clk req st =
           (Reply 201
              \<lparr> acc_status = ''accepted'', acc_task_id = req_task_id req,
                acc_message = ''Task received and queued for evaluation'',
                acc_status_url = ''/tasks/'' @ req_task_id req @ ''/status'' \<rparr>,
            st\<lparr> rateBuckets := bucket_after clk req st,
                seenNonces := (seenNonces st)(req_nonce req \<mapsto> nonce_now clk),
                tasks_dir :=
                  AList.update (file_name (req_task_id req)) (new_task clk req) (tasks_dir st) \<rparr>)"
proof -
  have "plain_id (task_id (new_task clk req))"
    using assms(1) by (simp add: new_task_def)
  from saveTask_plain [OF this] assms(2-6) show ?thesis
    by (simp add: post_inbox_cases RATE_MAX_REQUESTS_def new_task_def)
qed

subsection \<open>The sample data\<close>

lemma messageToVerify_sample_sign [simp]:
  "messageToVerify (sample_sign k r) = messageToVerify r"
  by (simp add: messageToVerify_def sample_sign_def)

lemma sample_sign_verifies:
  assumes "req_requester_id r = ''b64:'' @ k"
  shows "verifySignature sample_runtime (messageToVerify (sample_sign k r))
           (req_signature (sample_sign k r)) (req_requester_id (sample_sign k r))"
  using assms
  by (simp add: verifySignature_def verifySignature_try_def sample_runtime_def sample_sign_def
      messageToVerify_def)

lemma sample_verifies:
  "verifySignature sample_runtime (messageToVerify sample_request) (req_signature sample_request)
     (req_requester_id sample_request)"
  unfolding sample_request_def by (rule sample_sign_verifies) simp

lemma unparsable_verifies:
  "verifySignature sample_runtime (messageToVerify unparsable_request)
     (req_signature unparsable_request) (req_requester_id unparsable_request)"
  unfolding unparsable_request_def
  by (rule sample_sign_verifies) (simp add: sample_request_def sample_sign_def)


lemma unsupported_verifies:
  "verifySignature sample_runtime (messageToVerify unsupported_request)
     (req_signature unsupported_request) (req_requester_id unsupported_request)"
  unfolding unsupported_request_def
  by (rule sample_sign_verifies) (simp add: sample_request_def sample_sign_def)

lemma forged_not_verified:
  "\<not> verifySignature sample_runtime (messageToVerify forged_request) (req_signature forged_request)
       (req_requester_id forged_request)"
  by (simp add: verifySignature_def verifySignature_try_def sample_runtime_def forged_request_def)

text \<open>The fields of the sample requests, for evaluation.\<close>

lemma sample_fields [simp]:
  "req_task_id sample_request = ''t1''"
  "req_requester_id sample_request = ''b64:alice''"
  "req_task_type sample_request = ''research.web''"
  "req_description sample_request = ''x''"
  "req_nonce sample_request = ''n1''"
  "req_timestamp sample_request = ''1970-01-01T00:00:00.000Z''"
  "req_signature sample_request \<noteq> []"
  by (simp_all add: sample_request_def sample_sign_def)

lemma unparsable_fields [simp]:
  "req_task_id unparsable_request = ''t1''"
  "req_requester_id unparsable_request = ''b64:alice''"
  "req_task_type unparsable_request = ''research.web''"
  "req_description unparsable_request = ''x''"
  "req_nonce unparsable_request = ''n1''"
  "req_timestamp unparsable_request = ''not-a-date''"
  "req_signature unparsable_request \<noteq> []"
  by (simp_all add: unparsable_request_def sample_sign_def)

lemma changed_fields [simp]:
  "req_task_id changed_request = ''t1''"
  "req_requester_id changed_request = ''b64:alice''"
  "req_task_type changed_request = ''research.web''"
  "req_description changed_request = ''y''"
  "req_nonce changed_request = ''n1''"
  "req_timestamp changed_request = ''1970-01-01T00:00:00.000Z''"
  "req_signature changed_request \<noteq> []"
  by (simp_all add: changed_request_def sample_sign_def)

lemma unsupported_fields [simp]:
  "req_task_id unsupported_request = ''t1''"
  "req_requester_id unsupported_request = ''b64:alice''"
  "req_task_type unsupported_request = ''cooking''"
  "req_description unsupported_request = ''x''"
  "req_nonce unsupported_request = ''n1''"
  "req_timestamp unsupported_request = ''1970-01-01T00:00:00.000Z''"
  "req_signature unsupported_request \<noteq> []"
  by (simp_all add: unsupported_request_def sample_sign_def)

lemma forged_fields [simp]:
  "req_task_id forged_request = ''t1''"
  "req_requester_id forged_request = ''b64:alice''"
  "req_task_type forged_request = ''research.web''"
  "req_description forged_request = ''x''"
  "req_nonce forged_request = ''n1''"
  "req_timestamp forged_request = ''1970-01-01T00:00:00.000Z''"
  "req_signature forged_request = ''forged!''"
  by (simp_all add: forged_request_def)

lemma incomplete_fields [simp]:
  "req_requester_id incomplete_request = ''b64:alice''"
  "req_description incomplete_request = []"
  "req_nonce incomplete_request = ''n1''"
  "req_timestamp incomplete_request = ''1970-01-01T00:00:00.000Z''"
  by (simp_all add: incomplete_request_def)

lemma sample_dates [simp]:
  "getTime sample_runtime ''1970-01-01T00:00:00.000Z'' = Some 0"
  "getTime sample_runtime ''not-a-date'' = None"
  by (simp_all add: sample_runtime_def sample_getTime_def)

lemma sample_capability [simp]: "hasCapability sample_config ''research.web''"
  by (simp add: hasCapability_def sample_config_def)

lemma clock_at_simps [simp]:
  "rate_now (clock_at t) = t" "nonce_now (clock_at t) = t"
  "created_now (clock_at t) = t" "updated_now (clock_at t) = t"
  by (simp_all add: clock_at_def)

lemma slash_verifies:
  "verifySignature sample_runtime (messageToVerify slash_request)
     (req_signature slash_request) (req_requester_id slash_request)"
  unfolding slash_request_def
  by (rule sample_sign_verifies) (simp add: sample_request_def sample_sign_def)

lemma dotdot_verifies:
  "verifySignature sample_runtime (messageToVerify dotdot_request)
     (req_signature dotdot_request) (req_requester_id dotdot_request)"
  unfolding dotdot_request_def
  by (rule sample_sign_verifies) (simp add: sample_request_def sample_sign_def)

lemma slash_fields [simp]:
  "req_task_id slash_request = ''a/b''"
  "req_requester_id slash_request = ''b64:alice''"
  "req_task_type slash_request = ''research.web''"
  "req_description slash_request = ''x''"
  "req_nonce slash_request = ''n1''"
  "req_timestamp slash_request = ''1970-01-01T00:00:00.000Z''"
  "req_signature slash_request \<noteq> []"
  by (simp_all add: slash_request_def sample_sign_def)

lemma dotdot_fields [simp]:
  "req_task_id dotdot_request = ''../receipts/zz''"
  "req_requester_id dotdot_request = ''b64:alice''"
  "req_task_type dotdot_request = ''research.web''"
  "req_description dotdot_request = ''x''"
  "req_nonce dotdot_request = ''n1''"
  "req_timestamp dotdot_request = ''1970-01-01T00:00:00.000Z''"
  "req_signature dotdot_request \<noteq> []"
  by (simp_all add: dotdot_request_def sample_sign_def)

lemma plain_t1 [simp]: "plain_id ''t1''"
  by (simp add: plain_id_def)

lemma sample_accepted:
  "post_inbox sample_runtime sample_config (clock_at 0) sample_request init_state =
     (Reply 201 \<lparr> acc_status = ''accepted'', acc_task_id = ''t1'',
                   acc_message = ''Task received and queued for evaluation'',
                   acc_status_url = ''/tasks/t1/status'' \<rparr>,
      init_state
        \<lparr> rateBuckets := [''b64:alice'' \<mapsto> [0]], seenNonces := [''n1'' \<mapsto> 0],
          tasks_dir := [(''t1.json'', new_task (clock_at 0) sample_request)] \<rparr>)"
proof -
  have "plain_id (req_task_id sample_request)"
    and "\<not> missing_fields sample_request"
    and "length (recent (rate_now (clock_at 0)) (req_requester_id sample_request)
           (rateBuckets init_state)) < 10"
    and "\<not> nonce_rejected sample_runtime (clock_at 0) sample_request init_state"
    and "hasCapability sample_config (req_task_type sample_request)"
    by (simp_all add: missing_fields_def recent_def init_state_def nonce_rejected_def)
  from post_inbox_plain [OF this(1-4) sample_verifies this(5)] show ?thesis
    by (simp add: bucket_after_def recent_def init_state_def file_name_def)
qed

subsection \<open>The task directory\<close>

text \<open>
  A task that is found sits in one file of the task directory, and the same id reads that
  file in every state.
\<close>

lemma loadTask_found:
  assumes "loadTask st ident = Done (Some t)"
  obtains f where "map_of (tasks_dir st) f = Some t"
    and "\<And>st'. loadTask st' ident = Done (map_of (tasks_dir st') f)"
proof -
  from assms obtain f where loc: "locate TASKS_DIR (file_name ident) = InDir f"
    and nul: "CHR 0x00 \<notin> set (file_name ident)" and len: "\<not> NAME_MAX < length f"
    and found: "map_of (tasks_dir st) f = Some t"
    by (auto simp add: loadTask_def read_file_def split: if_splits place.splits)
  have "loadTask st' ident = Done (map_of (tasks_dir st') f)" for st'
    by (simp add: loadTask_def read_file_def loc nul len)
  with found show ?thesis by (rule that)
qed

lemma store_ok_entry:
  assumes "store_ok st" and "map_of (tasks_dir st) f = Some t"
  shows "plain_id (task_id t)" and "f = file_name (task_id t)"
proof -
  from assms(2) have "(f, t) \<in> set (tasks_dir st)" by (rule map_of_SomeD)
  with assms(1) show "plain_id (task_id t)" and "f = file_name (task_id t)"
    by (auto simp add: store_ok_def list_all_iff)
qed

subsection \<open>The maps in memory\<close>

text \<open>
  A request that gets past the rate limit is counted, whatever becomes of it afterwards.
\<close>

lemma rateBuckets_post_inbox:
  "rateBuckets (snd (post_inbox R C clk req st)) =
     (if missing_fields req
         \<or> RATE_MAX_REQUESTS \<le> length (recent (rate_now clk) (req_requester_id req) (rateBuckets st))
      then rateBuckets st else bucket_after clk req st)"
  by (auto simp add: post_inbox_cases split: outcome.splits dest!: saveTask_Done)



lemma seenNonces_post_complete [simp]:
  "seenNonces (snd (post_complete R C clk ident res pp st)) = seenNonces st"
  by (auto simp add: post_complete_def Let_def
      split: option.splits outcome.splits dest!: saveTask_Done saveReceipt_Done)

lemma seenNonces_post_reject [simp]:
  "seenNonces (snd (post_reject now ident reason st)) = seenNonces st"
  by (auto simp add: post_reject_def Let_def split: option.splits outcome.splits
      dest!: saveTask_Done)





text \<open>No handler lets a bucket grow beyond ten entries.\<close>

lemma bounded_post_inbox:
  "buckets_bounded (rateBuckets st) \<Longrightarrow> buckets_bounded (rateBuckets (snd (post_inbox R C clk req st)))"
  by (auto simp add: rateBuckets_post_inbox buckets_bounded_def bucket_after_def
      RATE_MAX_REQUESTS_def)

lemma rateBuckets_post_complete [simp]:
  "rateBuckets (snd (post_complete R C clk ident res pp st)) = rateBuckets st"
  by (auto simp add: post_complete_def Let_def
      split: option.splits outcome.splits dest!: saveTask_Done saveReceipt_Done)

lemma rateBuckets_post_reject [simp]:
  "rateBuckets (snd (post_reject now ident reason st)) = rateBuckets st"
  by (auto simp add: post_reject_def Let_def split: option.splits outcome.splits
      dest!: saveTask_Done)

lemma bounded_step:
  "buckets_bounded (rateBuckets st) \<Longrightarrow> buckets_bounded (rateBuckets (step R C st e))"
  by (cases e) (simp_all add: bounded_post_inbox)

lemma bounded_run:
  "buckets_bounded (rateBuckets st) \<Longrightarrow> buckets_bounded (rateBuckets (run R C st evs))"
  unfolding run_def by (induction evs arbitrary: st) (simp_all add: bounded_step)

subsection \<open>A valid request and the file of its task\<close>

text \<open>
  A request that carries all required fields, whose requester is under the rate limit
  (fewer than ten timestamps of its bucket are inside the 60-second window), whose nonce
  has not been seen, whose timestamp parses to a time within five minutes of the server's
  clock, whose signature verifies against \<^verbatim>\<open>requester_id\<close> over the canonical message,
  whose task type is among the agent's capabilities, and whose task id is a plain file
  name, is answered with 201 and status \<^verbatim>\<open>accepted\<close>; asking for its status afterwards
  answers 200 with the task in status \<^verbatim>\<open>pending\<close>, without result or receipt.
\<close>

lemma submit_valid_plain_id_accepted_then_pending:
  assumes "\<not> missing_fields req"
    and "length (recent (rate_now clk) (req_requester_id req) (rateBuckets st)) < 10"
    and "seenNonces st (req_nonce req) = None"
    and "getTime R (req_timestamp req) = Some t"
    and "\<bar>nonce_now clk - t\<bar> \<le> 300000"
    and "verifySignature R (messageToVerify req) (req_signature req) (req_requester_id req)"
    and "hasCapability C (req_task_type req)"
    and "plain_id (req_task_id req)"
  shows "fst (post_inbox R C clk req st) =
            Reply 201 \<lparr> acc_status = ''accepted'', acc_task_id = req_task_id req,
                         acc_message = ''Task received and queued for evaluation'',
                         acc_status_url = ''/tasks/'' @ req_task_id req @ ''/status'' \<rparr>
          \<and> get_task_status (snd (post_inbox R C clk req st)) (req_task_id req) =
              Reply 200 \<lparr> sv_task_id = req_task_id req, sv_status = ''pending'',
                           sv_task_type = req_task_type req, sv_created = created_now clk,
                           sv_updated = updated_now clk, sv_result = JNull, sv_receipt = None \<rparr>"
proof -
  from assms(3-5) have "\<not> nonce_rejected R clk req st"
    by (simp add: nonce_rejected_def)
  from post_inbox_plain [OF assms(8,1,2) this assms(6,7)] assms(8) show ?thesis
    by (simp add: get_task_status_def loadTask_plain update_conv' new_task_def)
qed

text \<open>
  Claim C1 says that every such request is answered with 201 and can then be asked for
  with status \<^verbatim>\<open>pending\<close>. \<^verbatim>\<open>saveTask\<close> puts the task id into the path of the file
  without looking at it. The sample request under the task id \<^verbatim>\<open>a/b\<close> meets every
  condition of the claim, and its file would be \<^verbatim>\<open>data/tasks/a/b.json\<close>: the directory
  \<^verbatim>\<open>a\<close> does not exist, \<^verbatim>\<open>writeFileSync\<close> throws, and the exception escapes the
  handler (Express answers 500) after the request has been counted and its nonce recorded.
  No task is stored, and asking for the status of \<^verbatim>\<open>a/b\<close> answers 404.
\<close>

theorem submit_slash_id_uncaught:
  "\<not> missing_fields slash_request
   \<and> length (recent (rate_now (clock_at 0)) (req_requester_id slash_request)
        (rateBuckets init_state)) < 10
   \<and> seenNonces init_state (req_nonce slash_request) = None
   \<and> getTime sample_runtime (req_timestamp slash_request) = Some 0
   \<and> \<bar>nonce_now (clock_at 0) - 0\<bar> \<le> 300000
   \<and> verifySignature sample_runtime (messageToVerify slash_request) (req_signature slash_request)
        (req_requester_id slash_request)
   \<and> hasCapability sample_config (req_task_type slash_request)
   \<and> locate TASKS_DIR (file_name (req_task_id slash_request)) = Below
   \<and> post_inbox sample_runtime sample_config (clock_at 0) slash_request init_state =
       (Uncaught, init_state\<lparr> rateBuckets := [''b64:alice'' \<mapsto> [0]],
                              seenNonces := [''n1'' \<mapsto> 0] \<rparr>)
   \<and> tasks_dir (snd (post_inbox sample_runtime sample_config (clock_at 0) slash_request init_state))
       = []
   \<and> get_task_status
        (snd (post_inbox sample_runtime sample_config (clock_at 0) slash_request init_state))
        ''a/b'' = failure 404 ''not_found'' (Some ''Task not found'')"
proof -
  have below: "locate TASKS_DIR (file_name ''a/b'') = Below"
    by (simp add: locate_def path_join_def file_name_def TASKS_DIR_def)
  have save: "saveTask (new_task (clock_at 0) slash_request) st = Thrown" for st
    by (simp add: saveTask_def write_file_def new_task_def below)
  have post: "post_inbox sample_runtime sample_config (clock_at 0) slash_request init_state =
       (Uncaught, init_state\<lparr> rateBuckets := [''b64:alice'' \<mapsto> [0]],
                              seenNonces := [''n1'' \<mapsto> 0] \<rparr>)"
    using slash_verifies
    by (simp add: post_inbox_cases missing_fields_def recent_def RATE_MAX_REQUESTS_def
        nonce_rejected_def bucket_after_def save init_state_def)
  have status: "get_task_status st ''a/b'' = failure 404 ''not_found'' (Some ''Task not found'')"
    for st
    by (simp add: get_task_status_def loadTask_def read_file_def below)
  show ?thesis
    using slash_verifies below
    by (simp add: post status missing_fields_def recent_def) (simp add: init_state_def)
qed

subsection \<open>Completion and rejection\<close>

lemma post_reject_found:
  assumes "store_ok st" and "loadTask st ident = Done (Some t)"
  shows "post_reject now ident reason st =
           (Reply 200 \<lparr> rej_status = ''rejected'', rej_task_id = task_id t,
                        rej_reason = or_default reason (JStr ''No reason given'') \<rparr>,
            st\<lparr> tasks_dir :=
                  AList.update (file_name (task_id t))
                    (t\<lparr> status := ''rejected'', updated := now,
                        rejection_reason := Some (or_default reason (JStr ''No reason given'')) \<rparr>)
                    (tasks_dir st) \<rparr>)"
proof -
  from assms(2) obtain f where "map_of (tasks_dir st) f = Some t"
    by (auto elim: loadTask_found)
  with assms(1) have "plain_id (task_id t)" by (rule store_ok_entry)
  then show ?thesis
    by (simp add: post_reject_def Let_def assms(2) saveTask_plain)
qed

lemma post_complete_signed:
  assumes "store_ok st" and "loadTask st ident = Done (Some t)" and "truthy r"
    and "signMessage R C (receiptData_json R (build_receiptData R C (completion_now clk) t r pp))
           = Some sg"
  shows "post_complete R C clk ident (Some r) pp st =
           (Reply 200
              \<lparr> cmp_status = ''completed'', cmp_task_id = task_id t,
                cmp_receipt =
                  with_signature (build_receiptData R C (completion_now clk) t r pp) sg \<rparr>,
            st\<lparr> tasks_dir :=
                  AList.update (file_name (task_id t))
                    (t\<lparr> status := ''completed'', result := r,
                        receipt :=
                          Some (with_signature (build_receiptData R C (completion_now clk) t r pp)
                                  sg),
                        updated := complete_updated_now clk \<rparr>)
                    (tasks_dir st),
                receipts_dir :=
                  AList.update (file_name (task_id t))
                    (with_signature (build_receiptData R C (completion_now clk) t r pp) sg)
                    (receipts_dir st) \<rparr>)"
proof -
  from assms(2) obtain f where "map_of (tasks_dir st) f = Some t"
    by (auto elim: loadTask_found)
  with assms(1) have plain: "plain_id (task_id t)" by (rule store_ok_entry)
  then have "plain_id (rc_task_id
               (with_signature (build_receiptData R C (completion_now clk) t r pp) sg))"
    by (simp add: with_signature_def build_receiptData_def)
  from saveReceipt_plain [OF this] plain show ?thesis
    by (simp add: post_complete_def Let_def assms(2-4) saveTask_plain)
      (simp add: with_signature_def build_receiptData_def)
qed

text \<open>What a stored task's id reads after the task's file has been rewritten.\<close>

lemma loadTask_rewritten:
  assumes "store_ok st" and "loadTask st ident = Done (Some t)"
    and "tasks_dir st' = AList.update (file_name (task_id t)) t' (tasks_dir st)"
  shows "loadTask st' ident = Done (Some t')"
proof -
  from assms(2) obtain f where f: "map_of (tasks_dir st) f = Some t"
    and rd: "\<And>st'. loadTask st' ident = Done (map_of (tasks_dir st') f)"
    by (auto elim: loadTask_found)
  from assms(1) f have "f = file_name (task_id t)" by (rule store_ok_entry)
  then show ?thesis by (simp add: rd assms(3) update_conv')
qed

lemma receiptData_json_with_signature [simp]:
  "receiptData_json R (with_signature d sg) = receiptData_json R d"
  by (simp add: receiptData_json_def with_signature_def)

lemma rc_agent_signature_with_signature [simp]:
  "rc_agent_signature (with_signature d sg) = sg"
  by (simp add: with_signature_def)

lemma keypair_ok_signs:
  assumes "keypair_ok R C"
  shows "\<exists>sg. signMessage R C m = Some sg \<and> verifySignature R m sg (publicKey C)"
proof -
  from assms obtain sk pk where sk: "decodeBase64 R (secretKey C) = Some sk"
    and pk: "decodeBase64 R (publicKey C) = Some pk"
    and all: "\<forall>m. \<exists>sg. sign_detached R m sk = Some sg \<and>
                decodeBase64 R (encodeBase64 R sg) = Some sg \<and>
                verify_detached R m sg pk = Some True"
    unfolding keypair_ok_def by blast
  from all obtain sg where sg: "sign_detached R (stringify R m) sk = Some sg"
    and rt: "decodeBase64 R (encodeBase64 R sg) = Some sg"
    and ok: "verify_detached R (stringify R m) sg pk = Some True"
    by blast
  have "signMessage R C m = Some (encodeBase64 R sg)"
    by (simp add: signMessage_def sk sg)
  moreover have "verifySignature R m (encodeBase64 R sg) (publicKey C)"
    by (simp add: verifySignature_def verifySignature_try_def rt pk ok)
  ultimately show ?thesis by blast
qed

lemma sample_keypair_ok: "keypair_ok sample_runtime sample_config"
  unfolding keypair_ok_def
  by (rule exI [of _ "''agent''"], rule exI [of _ "''agent''"])
    (simp add: sample_runtime_def sample_config_def)

lemma loadTask_completed_state:
  "loadTask completed_state ''t1'' =
     Done (Some (sample_task\<lparr> status := ''completed'', result := JStr ''finding'',
                              receipt := Some sample_receipt \<rparr>))"
  by (simp add: loadTask_plain completed_state_def file_name_def)

lemma loadTask_rejected_state:
  "loadTask rejected_state ''t1'' =
     Done (Some (sample_task\<lparr> status := ''rejected'',
                              rejection_reason := Some (JStr ''No reason given'') \<rparr>))"
  by (simp add: loadTask_plain rejected_state_def file_name_def)

lemma loadTask_pending_state: "loadTask pending_state ''t1'' = Done (Some sample_task)"
  by (simp add: loadTask_plain pending_state_def file_name_def)

lemma store_ok_samples:
  "store_ok completed_state" "store_ok rejected_state" "store_ok pending_state"
  by (simp_all add: store_ok_def completed_state_def rejected_state_def pending_state_def
      file_name_def sample_task_def new_task_def)

lemma sample_task_fields [simp]:
  "task_id sample_task = ''t1''" "task_type sample_task = ''research.web''"
  "requester_id sample_task = ''b64:alice''"
  "created sample_task = 0" "updated sample_task = 0" "receipt sample_task = None"
  "status sample_task = ''pending''" "result sample_task = JNull"
  by (simp_all add: sample_task_def new_task_def)

text \<open>
  Claim C2 says that \<^verbatim>\<open>completed\<close> and \<^verbatim>\<open>rejected\<close> are terminal. Neither handler looks
  at the current status: rejecting the completed sample task answers 200 and leaves it
  \<^verbatim>\<open>rejected\<close> (its receipt still stored, its result no longer shown).
\<close>

theorem reject_overwrites_completed:
  "get_task_status completed_state ''t1'' =
     Reply 200 \<lparr> sv_task_id = ''t1'', sv_status = ''completed'', sv_task_type = ''research.web'',
                  sv_created = 0, sv_updated = 0, sv_result = JStr ''finding'',
                  sv_receipt = Some sample_receipt \<rparr>
   \<and> fst (post_reject 5 ''t1'' None completed_state) =
       Reply 200 \<lparr> rej_status = ''rejected'', rej_task_id = ''t1'',
                    rej_reason = JStr ''No reason given'' \<rparr>
   \<and> get_task_status (snd (post_reject 5 ''t1'' None completed_state)) ''t1'' =
       Reply 200 \<lparr> sv_task_id = ''t1'', sv_status = ''rejected'', sv_task_type = ''research.web'',
                    sv_created = 0, sv_updated = 5, sv_result = JNull,
                    sv_receipt = Some sample_receipt \<rparr>"
  by (simp add: get_task_status_def
      post_reject_found [OF store_ok_samples(1) loadTask_completed_state]
      loadTask_completed_state loadTask_plain update_conv' or_default_def file_name_def)

text \<open>
  Claim C2, amended. Take a task directory in which every task has a plain file name as its
  id and is stored under it, and a task found in it. The status after a rejection is
  \<^verbatim>\<open>rejected\<close> and the status after a completion (one that supplies a result and is
  signed) is \<^verbatim>\<open>completed\<close>, whatever the status was before; so a completed task can
  become rejected and a rejected one completed. A rejection does not overwrite or remove a
  receipt: the task keeps the receipt it had and the receipt directory is unchanged.
\<close>

theorem status_after_reject_and_complete:
  assumes "store_ok st" and "loadTask st ident = Done (Some t)"
  shows "get_task_status (snd (post_reject now ident reason st)) ident =
           Reply 200 \<lparr> sv_task_id = task_id t, sv_status = ''rejected'',
                        sv_task_type = task_type t, sv_created = created t, sv_updated = now,
                        sv_result = JNull, sv_receipt = receipt t \<rparr>
     \<and> receipts_dir (snd (post_reject now ident reason st)) = receipts_dir st
     \<and> (truthy r \<longrightarrow>
          signMessage R C (receiptData_json R (build_receiptData R C (completion_now clk) t r pp))
            = Some sg \<longrightarrow>
          get_task_status (snd (post_complete R C clk ident (Some r) pp st)) ident =
            Reply 200 \<lparr> sv_task_id = task_id t, sv_status = ''completed'',
                         sv_task_type = task_type t, sv_created = created t,
                         sv_updated = complete_updated_now clk, sv_result = r,
                         sv_receipt =
                           Some (with_signature
                                   (build_receiptData R C (completion_now clk) t r pp) sg) \<rparr>)"
proof -
  note again = loadTask_rewritten [OF assms]
  have rej: "get_task_status (snd (post_reject now ident reason st)) ident =
           Reply 200 \<lparr> sv_task_id = task_id t, sv_status = ''rejected'',
                        sv_task_type = task_type t, sv_created = created t, sv_updated = now,
                        sv_result = JNull, sv_receipt = receipt t \<rparr>"
    by (simp add: post_reject_found [OF assms] get_task_status_def again)
  have dir: "receipts_dir (snd (post_reject now ident reason st)) = receipts_dir st"
    by (simp add: post_reject_found [OF assms])
  have cmp: "get_task_status (snd (post_complete R C clk ident (Some r) pp st)) ident =
            Reply 200 \<lparr> sv_task_id = task_id t, sv_status = ''completed'',
                         sv_task_type = task_type t, sv_created = created t,
                         sv_updated = complete_updated_now clk, sv_result = r,
                         sv_receipt =
                           Some (with_signature
                                   (build_receiptData R C (completion_now clk) t r pp) sg) \<rparr>"
    if "truthy r"
      and "signMessage R C (receiptData_json R (build_receiptData R C (completion_now clk) t r pp))
            = Some sg"
    using that
    by (simp add: post_complete_signed [OF assms] get_task_status_def again)
  from rej dir cmp show ?thesis by blast
qed

theorem status_after_reject_and_complete_witness:
  "store_ok completed_state
   \<and> loadTask completed_state ''t1'' =
       Done (Some (sample_task\<lparr> status := ''completed'', result := JStr ''finding'',
                                receipt := Some sample_receipt \<rparr>))
   \<and> get_task_status (snd (post_reject 5 ''t1'' None completed_state)) ''t1'' =
       Reply 200 \<lparr> sv_task_id = ''t1'', sv_status = ''rejected'', sv_task_type = ''research.web'',
                    sv_created = 0, sv_updated = 5, sv_result = JNull,
                    sv_receipt = Some sample_receipt \<rparr>
   \<and> receipts_dir (snd (post_reject 5 ''t1'' None completed_state)) = receipts_dir completed_state
   \<and> store_ok rejected_state
   \<and> loadTask rejected_state ''t1'' =
       Done (Some (sample_task\<lparr> status := ''rejected'',
                                rejection_reason := Some (JStr ''No reason given'') \<rparr>))
   \<and> truthy (JStr ''finding'')
   \<and> signMessage sample_runtime sample_config
        (receiptData_json sample_runtime
           (build_receiptData sample_runtime sample_config (completion_now (complete_at 7))
              (sample_task\<lparr> status := ''rejected'',
                             rejection_reason := Some (JStr ''No reason given'') \<rparr>)
              (JStr ''finding'') None)) =
       Some ''b64:task_id:t1;requester_id:b64:alice;agent_id:b64:agent;task_type:research.web;completion_timestamp:later;result_hash:sha256 of finding;payment_proof:null;agent''
   \<and> get_task_status
        (snd (post_complete sample_runtime sample_config (complete_at 7) ''t1''
                (Some (JStr ''finding'')) None rejected_state)) ''t1'' =
       Reply 200 \<lparr> sv_task_id = ''t1'', sv_status = ''completed'', sv_task_type = ''research.web'',
                    sv_created = 0, sv_updated = 7, sv_result = JStr ''finding'',
                    sv_receipt =
                      Some \<lparr> rc_task_id = ''t1'', rc_requester_id = ''b64:alice'',
                             rc_agent_id = ''b64:agent'', rc_task_type = ''research.web'',
                             rc_completion_timestamp = 7,
                             rc_result_hash = ''sha256 of finding'', rc_payment_proof = JNull,
                             rc_agent_signature =
                               ''b64:task_id:t1;requester_id:b64:alice;agent_id:b64:agent;task_type:research.web;completion_timestamp:later;result_hash:sha256 of finding;payment_proof:null;agent'' \<rparr> \<rparr>"
proof -
  let ?rt = "sample_task\<lparr> status := ''rejected'',
                         rejection_reason := Some (JStr ''No reason given'') \<rparr>"
  let ?sg = "''b64:task_id:t1;requester_id:b64:alice;agent_id:b64:agent;task_type:research.web;completion_timestamp:later;result_hash:sha256 of finding;payment_proof:null;agent''"
  have h1: "store_ok completed_state" and h2: "store_ok rejected_state"
    by (rule store_ok_samples)+
  note h3 = loadTask_completed_state
  note h4 = loadTask_rejected_state
  have h5: "truthy (JStr ''finding'')" by simp
  have h6: "signMessage sample_runtime sample_config
        (receiptData_json sample_runtime
           (build_receiptData sample_runtime sample_config (completion_now (complete_at 7))
              ?rt (JStr ''finding'') None)) = Some ?sg"
    by (simp add: signMessage_def sample_runtime_def sample_config_def receiptData_json_def
        build_receiptData_def complete_at_def or_null_def)
  from status_after_reject_and_complete [OF h1 h3, of 5 None]
  have a: "get_task_status (snd (post_reject 5 ''t1'' None completed_state)) ''t1'' =
       Reply 200 \<lparr> sv_task_id = ''t1'', sv_status = ''rejected'', sv_task_type = ''research.web'',
                    sv_created = 0, sv_updated = 5, sv_result = JNull,
                    sv_receipt = Some sample_receipt \<rparr>"
    and b: "receipts_dir (snd (post_reject 5 ''t1'' None completed_state))
              = receipts_dir completed_state"
    by simp_all
  from status_after_reject_and_complete [OF h2 h4, of _ _ "JStr ''finding''" sample_runtime
      sample_config "complete_at 7" None ?sg] h5 h6
  have c: "get_task_status
        (snd (post_complete sample_runtime sample_config (complete_at 7) ''t1''
                (Some (JStr ''finding'')) None rejected_state)) ''t1'' =
       Reply 200 \<lparr> sv_task_id = ''t1'', sv_status = ''completed'', sv_task_type = ''research.web'',
                    sv_created = 0, sv_updated = 7, sv_result = JStr ''finding'',
                    sv_receipt =
                      Some \<lparr> rc_task_id = ''t1'', rc_requester_id = ''b64:alice'',
                             rc_agent_id = ''b64:agent'', rc_task_type = ''research.web'',
                             rc_completion_timestamp = 7,
                             rc_result_hash = ''sha256 of finding'', rc_payment_proof = JNull,
                             rc_agent_signature = ?sg \<rparr> \<rparr>"
    by (simp add: with_signature_def build_receiptData_def complete_at_def sample_runtime_def
        sample_config_def or_null_def)
  from h1 h2 h3 h4 h5 h6 a b c show ?thesis by blast
qed

subsection \<open>What a failed submission leaves behind\<close>

text \<open>
  Claim C3 says that a request failing any check of \<^verbatim>\<open>POST /inbox\<close> leaves the task
  store, the nonce map and the rate buckets as they were. The checks run in order and the
  second and third record as they pass, so a request turned down later has been counted and
  its nonce stored: the forged sample request fails with \<^verbatim>\<open>invalid_signature\<close>, and
  afterwards its nonce is in the map and its requester has a bucket.
\<close>

theorem failed_submit_keeps_nonce_and_count:
  "fst (post_inbox sample_runtime sample_config (clock_at 0) forged_request init_state) =
     failure 401 ''invalid_signature'' (Some ''Signature verification failed'')
   \<and> seenNonces init_state ''n1'' = None
   \<and> seenNonces (snd (post_inbox sample_runtime sample_config (clock_at 0) forged_request init_state))
        ''n1'' = Some 0
   \<and> rateBuckets init_state ''b64:alice'' = None
   \<and> rateBuckets (snd (post_inbox sample_runtime sample_config (clock_at 0) forged_request init_state))
        ''b64:alice'' = Some [0]"
  using forged_not_verified
  by (simp add: post_inbox_cases missing_fields_def init_state_def recent_def
      RATE_MAX_REQUESTS_def nonce_rejected_def bucket_after_def)

text \<open>
  Claim C3, amended. A failed submission never changes the task directory or the receipt
  directory. With \<^verbatim>\<open>missing_fields\<close> or \<^verbatim>\<open>rate_limited\<close> the whole state is unchanged.
  With \<^verbatim>\<open>invalid_nonce\<close> the nonce map is unchanged and the requester's bucket has the
  request counted. With \<^verbatim>\<open>invalid_signature\<close> or \<^verbatim>\<open>capability_not_found\<close> the
  request has been counted and its nonce recorded.
\<close>

theorem failed_submit_state_effects:
  assumes "fst (post_inbox R C clk req st) = Failure c e"
  shows "tasks_dir (snd (post_inbox R C clk req st)) = tasks_dir st
    \<and> receipts_dir (snd (post_inbox R C clk req st)) = receipts_dir st
    \<and> (err_kind e = ''missing_fields'' \<or> err_kind e = ''rate_limited''
         \<longrightarrow> snd (post_inbox R C clk req st) = st)
    \<and> (err_kind e = ''invalid_nonce''
         \<longrightarrow> seenNonces (snd (post_inbox R C clk req st)) = seenNonces st
           \<and> rateBuckets (snd (post_inbox R C clk req st)) = bucket_after clk req st)
    \<and> (err_kind e = ''invalid_signature'' \<or> err_kind e = ''capability_not_found''
         \<longrightarrow> seenNonces (snd (post_inbox R C clk req st)) =
               (seenNonces st)(req_nonce req \<mapsto> nonce_now clk)
           \<and> rateBuckets (snd (post_inbox R C clk req st)) = bucket_after clk req st)"
  using assms
  by (auto simp add: post_inbox_cases failure_def split: if_splits outcome.splits)

theorem failed_submit_state_effects_witness:
  "fst (post_inbox sample_runtime sample_config (clock_at 0) incomplete_request init_state) =
     failure 400 ''missing_fields''
       (Some ''Required: task_id, requester_id, task_type, description, nonce, timestamp, signature'')
   \<and> snd (post_inbox sample_runtime sample_config (clock_at 0) incomplete_request init_state)
       = init_state
   \<and> fst (post_inbox sample_runtime sample_config (clock_at 600000) sample_request
            full_bucket_state) =
       failure 429 ''rate_limited'' (Some ''Max 10 requests per 60s per requester'')
   \<and> snd (post_inbox sample_runtime sample_config (clock_at 600000) sample_request
            full_bucket_state) = full_bucket_state
   \<and> fst (post_inbox sample_runtime sample_config (clock_at 0) sample_request seen_state) =
       failure 400 ''invalid_nonce'' (Some invalid_nonce_message)
   \<and> seenNonces (snd (post_inbox sample_runtime sample_config (clock_at 0) sample_request
        seen_state)) = seenNonces seen_state
   \<and> rateBuckets (snd (post_inbox sample_runtime sample_config (clock_at 0) sample_request
        seen_state)) = bucket_after (clock_at 0) sample_request seen_state
   \<and> tasks_dir (snd (post_inbox sample_runtime sample_config (clock_at 0) sample_request
        seen_state)) = tasks_dir seen_state
   \<and> fst (post_inbox sample_runtime sample_config (clock_at 0) forged_request init_state) =
       failure 401 ''invalid_signature'' (Some ''Signature verification failed'')
   \<and> tasks_dir (snd (post_inbox sample_runtime sample_config (clock_at 0) forged_request init_state))
       = tasks_dir init_state
   \<and> seenNonces (snd (post_inbox sample_runtime sample_config (clock_at 0) forged_request init_state))
       = (seenNonces init_state)(req_nonce forged_request \<mapsto> nonce_now (clock_at 0))
   \<and> rateBuckets (snd (post_inbox sample_runtime sample_config (clock_at 0) forged_request init_state))
       = bucket_after (clock_at 0) forged_request init_state
   \<and> fst (post_inbox sample_runtime sample_config (clock_at 0) unsupported_request init_state) =
       Failure 404
         \<lparr> err_kind = ''capability_not_found'',
           err_message = Some ''This agent does not support task type: cooking'',
           err_supported = Some [''research.web'', ''code.review''] \<rparr>
   \<and> tasks_dir (snd (post_inbox sample_runtime sample_config (clock_at 0) unsupported_request
        init_state)) = tasks_dir init_state
   \<and> seenNonces (snd (post_inbox sample_runtime sample_config (clock_at 0) unsupported_request
        init_state)) = (seenNonces init_state)(req_nonce unsupported_request \<mapsto> nonce_now (clock_at 0))"
proof -
  have m: "fst (post_inbox sample_runtime sample_config (clock_at 0) incomplete_request init_state)
      = failure 400 ''missing_fields''
          (Some ''Required: task_id, requester_id, task_type, description, nonce, timestamp, signature'')"
    by (simp add: post_inbox_cases missing_fields_def)
  have r: "fst (post_inbox sample_runtime sample_config (clock_at 600000) sample_request
            full_bucket_state) =
       failure 429 ''rate_limited'' (Some ''Max 10 requests per 60s per requester'')"
    by (simp add: post_inbox_cases missing_fields_def full_bucket_state_def init_state_def
        recent_def RATE_MAX_REQUESTS_def)
  have n: "fst (post_inbox sample_runtime sample_config (clock_at 0) sample_request seen_state) =
       failure 400 ''invalid_nonce'' (Some invalid_nonce_message)"
    by (simp add: post_inbox_cases missing_fields_def seen_state_def init_state_def recent_def
        RATE_MAX_REQUESTS_def nonce_rejected_def)
  have s: "fst (post_inbox sample_runtime sample_config (clock_at 0) forged_request init_state) =
       failure 401 ''invalid_signature'' (Some ''Signature verification failed'')"
    using forged_not_verified
    by (simp add: post_inbox_cases missing_fields_def init_state_def recent_def
        RATE_MAX_REQUESTS_def nonce_rejected_def)
  have c: "fst (post_inbox sample_runtime sample_config (clock_at 0) unsupported_request init_state) =
       Failure 404
         \<lparr> err_kind = ''capability_not_found'',
           err_message = Some ''This agent does not support task type: cooking'',
           err_supported = Some [''research.web'', ''code.review''] \<rparr>"
    using unsupported_verifies
    by (simp add: post_inbox_cases missing_fields_def init_state_def recent_def
        RATE_MAX_REQUESTS_def nonce_rejected_def hasCapability_def sample_config_def)
  from failed_submit_state_effects [OF m [unfolded failure_def]]
  have m': "snd (post_inbox sample_runtime sample_config (clock_at 0) incomplete_request init_state)
       = init_state"
    by simp
  from failed_submit_state_effects [OF r [unfolded failure_def]]
  have r': "snd (post_inbox sample_runtime sample_config (clock_at 600000) sample_request
            full_bucket_state) = full_bucket_state"
    by simp
  from failed_submit_state_effects [OF n [unfolded failure_def]]
  have n': "seenNonces (snd (post_inbox sample_runtime sample_config (clock_at 0) sample_request
        seen_state)) = seenNonces seen_state"
    "rateBuckets (snd (post_inbox sample_runtime sample_config (clock_at 0) sample_request
        seen_state)) = bucket_after (clock_at 0) sample_request seen_state"
    "tasks_dir (snd (post_inbox sample_runtime sample_config (clock_at 0) sample_request
        seen_state)) = tasks_dir seen_state"
    by simp_all
  from failed_submit_state_effects [OF s [unfolded failure_def]]
  have s': "tasks_dir (snd (post_inbox sample_runtime sample_config (clock_at 0) forged_request
        init_state)) = tasks_dir init_state"
    "seenNonces (snd (post_inbox sample_runtime sample_config (clock_at 0) forged_request init_state))
       = (seenNonces init_state)(req_nonce forged_request \<mapsto> nonce_now (clock_at 0))"
    "rateBuckets (snd (post_inbox sample_runtime sample_config (clock_at 0) forged_request init_state))
       = bucket_after (clock_at 0) forged_request init_state"
    by simp_all
  from failed_submit_state_effects [OF c]
  have c': "tasks_dir (snd (post_inbox sample_runtime sample_config (clock_at 0) unsupported_request
        init_state)) = tasks_dir init_state"
    "seenNonces (snd (post_inbox sample_runtime sample_config (clock_at 0) unsupported_request
        init_state)) = (seenNonces init_state)(req_nonce unsupported_request \<mapsto> nonce_now (clock_at 0))"
    by simp_all
  from m m' r r' n n' s s' c c' show ?thesis by blast
qed

subsection \<open>The receipt of a completed task\<close>

text \<open>
  For a task found in a task directory whose tasks have plain ids and are stored under
  them, a completion that supplies a result answers 200 with a receipt, and the status
  asked afterwards shows the task \<^verbatim>\<open>completed\<close> with that result and that receipt. The
  receipt carries the ids and the type of the task, the agent's public key and the
  completion time; its \<^verbatim>\<open>result_hash\<close> is the SHA-256 hex digest of the serialized result,
  and its \<^verbatim>\<open>agent_signature\<close> verifies against the agent's public key over the object of
  its other seven fields, in the order of \<^verbatim>\<open>receiptData\<close>. The agent's key pair works.
\<close>

lemma complete_receipt_hash_and_signature:
  assumes "store_ok st" and "loadTask st ident = Done (Some t)" and "truthy r"
    and "keypair_ok R C"
  shows "\<exists>sg.
           fst (post_complete R C clk ident (Some r) pp st) =
             Reply 200
               \<lparr> cmp_status = ''completed'', cmp_task_id = task_id t,
                 cmp_receipt =
                   \<lparr> rc_task_id = task_id t, rc_requester_id = requester_id t,
                     rc_agent_id = publicKey C, rc_task_type = task_type t,
                     rc_completion_timestamp = completion_now clk,
                     rc_result_hash = sha256_hex R (stringify R r),
                     rc_payment_proof = or_null pp, rc_agent_signature = sg \<rparr> \<rparr>
         \<and> get_task_status (snd (post_complete R C clk ident (Some r) pp st)) ident =
             Reply 200
               \<lparr> sv_task_id = task_id t, sv_status = ''completed'',
                 sv_task_type = task_type t, sv_created = created t,
                 sv_updated = complete_updated_now clk, sv_result = r,
                 sv_receipt =
                   Some \<lparr> rc_task_id = task_id t, rc_requester_id = requester_id t,
                          rc_agent_id = publicKey C, rc_task_type = task_type t,
                          rc_completion_timestamp = completion_now clk,
                          rc_result_hash = sha256_hex R (stringify R r),
                          rc_payment_proof = or_null pp, rc_agent_signature = sg \<rparr> \<rparr>
         \<and> verifySignature R
              (JObj
                 [(''task_id'', JStr (task_id t)),
                  (''requester_id'', JStr (requester_id t)),
                  (''agent_id'', JStr (publicKey C)),
                  (''task_type'', JStr (task_type t)),
                  (''completion_timestamp'', JStr (toISOString R (completion_now clk))),
                  (''result_hash'', JStr (sha256_hex R (stringify R r))),
                  (''payment_proof'', or_null pp)])
              sg (publicKey C)"
proof -
  let ?d = "build_receiptData R C (completion_now clk) t r pp"
  from keypair_ok_signs [OF assms(4)] obtain sg
    where sg: "signMessage R C (receiptData_json R ?d) = Some sg"
      and ok: "verifySignature R (receiptData_json R ?d) sg (publicKey C)"
    by blast
  note signed = post_complete_signed [OF assms(1-3) sg]
  have "fst (post_complete R C clk ident (Some r) pp st) =
             Reply 200
               \<lparr> cmp_status = ''completed'', cmp_task_id = task_id t,
                 cmp_receipt =
                   \<lparr> rc_task_id = task_id t, rc_requester_id = requester_id t,
                     rc_agent_id = publicKey C, rc_task_type = task_type t,
                     rc_completion_timestamp = completion_now clk,
                     rc_result_hash = sha256_hex R (stringify R r),
                     rc_payment_proof = or_null pp, rc_agent_signature = sg \<rparr> \<rparr>"
    by (simp add: signed with_signature_def build_receiptData_def)
  moreover have "get_task_status (snd (post_complete R C clk ident (Some r) pp st)) ident =
             Reply 200
               \<lparr> sv_task_id = task_id t, sv_status = ''completed'',
                 sv_task_type = task_type t, sv_created = created t,
                 sv_updated = complete_updated_now clk, sv_result = r,
                 sv_receipt =
                   Some \<lparr> rc_task_id = task_id t, rc_requester_id = requester_id t,
                          rc_agent_id = publicKey C, rc_task_type = task_type t,
                          rc_completion_timestamp = completion_now clk,
                          rc_result_hash = sha256_hex R (stringify R r),
                          rc_payment_proof = or_null pp, rc_agent_signature = sg \<rparr> \<rparr>"
    by (simp add: signed get_task_status_def loadTask_rewritten [OF assms(1,2)])
      (simp add: with_signature_def build_receiptData_def)
  moreover have "verifySignature R
              (JObj
                 [(''task_id'', JStr (task_id t)),
                  (''requester_id'', JStr (requester_id t)),
                  (''agent_id'', JStr (publicKey C)),
                  (''task_type'', JStr (task_type t)),
                  (''completion_timestamp'', JStr (toISOString R (completion_now clk))),
                  (''result_hash'', JStr (sha256_hex R (stringify R r))),
                  (''payment_proof'', or_null pp)])
              sg (publicKey C)"
    using ok by (simp add: receiptData_json_def build_receiptData_def)
  ultimately show ?thesis by blast
qed

text \<open>
  Claim C4 says that for every completed task the status asked after the completion
  returns the receipt. The handler writes the task with \<^verbatim>\<open>saveTask\<close> and then the receipt
  with \<^verbatim>\<open>saveReceipt\<close>, and each puts the task id into its path without looking at it.
  For the task id \<^verbatim>\<open>../receipts/zz\<close> (the server accepts a request with it) the task file
  is not in the task directory: both paths are \<^verbatim>\<open>data/receipts/zz.json\<close>. The receipt
  is written over the task record, and the status handler, which reads the same file, then
  finds a receipt where it reads a task: no status and no receipt in its answer. The
  sample request under this task id passes every check of \<^verbatim>\<open>POST /inbox\<close>, and the
  handler writes its task outside the task directory.
\<close>

theorem task_and_receipt_in_one_file:
  "path_join TASKS_DIR (file_name ''../receipts/zz'') = Some [''data'', ''receipts'', ''zz.json'']
   \<and> path_join RECEIPTS_DIR (file_name ''../receipts/zz'')
       = Some [''data'', ''receipts'', ''zz.json'']
   \<and> locate TASKS_DIR (file_name ''../receipts/zz'') = Elsewhere
   \<and> locate RECEIPTS_DIR (file_name ''../receipts/zz'') = InDir ''zz.json''
   \<and> post_inbox sample_runtime sample_config (clock_at 0) dotdot_request init_state =
       (Unfollowed, init_state\<lparr> rateBuckets := [''b64:alice'' \<mapsto> [0]],
                                seenNonces := [''n1'' \<mapsto> 0] \<rparr>)
   \<and> saveTask (sample_task\<lparr> task_id := ''../receipts/zz'' \<rparr>) init_state = Outside
   \<and> saveReceipt (sample_receipt\<lparr> rc_task_id := ''../receipts/zz'' \<rparr>) init_state =
       Done (init_state
               \<lparr> receipts_dir :=
                   [(''zz.json'', sample_receipt\<lparr> rc_task_id := ''../receipts/zz'' \<rparr>)] \<rparr>)"
proof -
  have p: "path_join TASKS_DIR (file_name ''../receipts/zz'')
             = Some [''data'', ''receipts'', ''zz.json'']"
    "path_join RECEIPTS_DIR (file_name ''../receipts/zz'')
       = Some [''data'', ''receipts'', ''zz.json'']"
    by (simp_all add: path_join_def file_name_def TASKS_DIR_def RECEIPTS_DIR_def)
  have l: "locate TASKS_DIR (file_name ''../receipts/zz'') = Elsewhere"
    "locate RECEIPTS_DIR (file_name ''../receipts/zz'') = InDir ''zz.json''"
    by (simp_all add: locate_def p) (simp_all add: TASKS_DIR_def RECEIPTS_DIR_def)
  have n: "CHR 0x00 \<notin> set (file_name ''../receipts/zz'')"
    by (simp add: file_name_def)
  have save: "saveTask (new_task (clock_at 0) dotdot_request) st = Outside" for st
    by (simp add: saveTask_def write_file_def new_task_def l n)
  have post: "post_inbox sample_runtime sample_config (clock_at 0) dotdot_request init_state =
       (Unfollowed, init_state\<lparr> rateBuckets := [''b64:alice'' \<mapsto> [0]],
                                seenNonces := [''n1'' \<mapsto> 0] \<rparr>)"
    using dotdot_verifies
    by (simp add: post_inbox_cases missing_fields_def recent_def RATE_MAX_REQUESTS_def
        nonce_rejected_def bucket_after_def save init_state_def)
  show ?thesis
    by (simp add: p l post saveTask_def saveReceipt_def write_file_def n NAME_MAX_def)
      (simp add: init_state_def)
qed

subsection \<open>Replayed nonces\<close>




subsection \<open>Timestamps outside the window\<close>

text \<open>
  Claim C6 says that every request whose timestamp is more than five minutes from the
  server's time fails with \<^verbatim>\<open>invalid_nonce\<close>. The required-field check and the rate limit
  come first: the sample request, validly signed and with a fresh nonce, posted ten minutes
  after its timestamp by a requester whose bucket is full, fails with \<^verbatim>\<open>rate_limited\<close>
  (429).
\<close>

theorem stale_timestamp_rate_limited_first:
  "getTime sample_runtime (req_timestamp sample_request) = Some 0
   \<and> \<bar>nonce_now (clock_at 600000) - 0\<bar> > 300000
   \<and> seenNonces full_bucket_state (req_nonce sample_request) = None
   \<and> verifySignature sample_runtime (messageToVerify sample_request) (req_signature sample_request)
        (req_requester_id sample_request)
   \<and> fst (post_inbox sample_runtime sample_config (clock_at 600000) sample_request full_bucket_state)
       = failure 429 ''rate_limited'' (Some ''Max 10 requests per 60s per requester'')"
  using sample_verifies
  by (simp add: post_inbox_cases missing_fields_def full_bucket_state_def init_state_def
      recent_def RATE_MAX_REQUESTS_def)

text \<open>
  Claim C6, amended. A request that carries all required fields and is under its
  requester's rate limit, and whose timestamp parses to a time more than five minutes before
  or after the server's clock, fails with 400 \<^verbatim>\<open>invalid_nonce\<close>, whatever its nonce,
  signature and task type; its nonce is not recorded and no task is stored.
\<close>

theorem stale_timestamp_invalid_nonce:
  assumes "\<not> missing_fields req"
    and "length (recent (rate_now clk) (req_requester_id req) (rateBuckets st)) < 10"
    and "getTime R (req_timestamp req) = Some t"
    and "\<bar>nonce_now clk - t\<bar> > 300000"
  shows "fst (post_inbox R C clk req st) = failure 400 ''invalid_nonce'' (Some invalid_nonce_message)
         \<and> seenNonces (snd (post_inbox R C clk req st)) = seenNonces st
         \<and> tasks_dir (snd (post_inbox R C clk req st)) = tasks_dir st"
  using assms
  by (simp add: post_inbox_cases nonce_rejected_def RATE_MAX_REQUESTS_def)

theorem stale_timestamp_invalid_nonce_witness:
  "\<not> missing_fields sample_request
   \<and> length (recent (rate_now (clock_at 600000)) (req_requester_id sample_request)
        (rateBuckets init_state)) < 10
   \<and> getTime sample_runtime (req_timestamp sample_request) = Some 0
   \<and> \<bar>nonce_now (clock_at 600000) - 0\<bar> > 300000
   \<and> fst (post_inbox sample_runtime sample_config (clock_at 600000) sample_request init_state) =
           failure 400 ''invalid_nonce'' (Some invalid_nonce_message)
   \<and> seenNonces (snd (post_inbox sample_runtime sample_config (clock_at 600000) sample_request
        init_state)) = seenNonces init_state"
proof -
  have h1: "\<not> missing_fields sample_request"
    by (simp add: missing_fields_def)
  have h2: "length (recent (rate_now (clock_at 600000)) (req_requester_id sample_request)
        (rateBuckets init_state)) < 10"
    by (simp add: recent_def init_state_def)
  have h3: "getTime sample_runtime (req_timestamp sample_request) = Some 0"
    by simp
  have h4: "\<bar>nonce_now (clock_at 600000) - 0\<bar> > 300000"
    by simp
  from stale_timestamp_invalid_nonce [OF h1 h2 h3 h4] h1 h2 h3 h4 show ?thesis by simp
qed

subsection \<open>Signatures that do not verify\<close>

text \<open>
  Claim C7 says that every request whose signature does not verify fails with
  \<^verbatim>\<open>invalid_signature\<close>. The three earlier checks come first: the forged sample request,
  posted when its nonce has already been seen, fails with \<^verbatim>\<open>invalid_nonce\<close> (400).
\<close>

theorem bad_signature_replayed_nonce_first:
  "\<not> verifySignature sample_runtime (messageToVerify forged_request) (req_signature forged_request)
       (req_requester_id forged_request)
   \<and> fst (post_inbox sample_runtime sample_config (clock_at 0) forged_request seen_state) =
       failure 400 ''invalid_nonce'' (Some invalid_nonce_message)"
  using forged_not_verified
  by (simp add: post_inbox_cases missing_fields_def seen_state_def init_state_def recent_def
      RATE_MAX_REQUESTS_def nonce_rejected_def)

text \<open>
  Claim C7, amended. A request that carries all required fields, is under the rate limit
  and passes the replay check, and whose signature does not verify against
  \<^verbatim>\<open>requester_id\<close> over the canonical message, fails with 401 \<^verbatim>\<open>invalid_signature\<close>,
  whether or not its task type is supported. \<^verbatim>\<open>verifySignature\<close> answers false, and does
  not throw, when the signature or the key does not decode, when the verification itself
  throws, and when it answers false.
\<close>

theorem bad_signature_invalid_signature:
  "(\<not> missing_fields req
      \<longrightarrow> length (recent (rate_now clk) (req_requester_id req) (rateBuckets st)) < 10
      \<longrightarrow> \<not> nonce_rejected R clk req st
      \<longrightarrow> \<not> verifySignature R (messageToVerify req) (req_signature req) (req_requester_id req)
      \<longrightarrow> fst (post_inbox R C clk req st) =
            failure 401 ''invalid_signature'' (Some ''Signature verification failed''))
   \<and> (decodeBase64 R sg = None \<longrightarrow> \<not> verifySignature R m sg pk)
   \<and> (decodeBase64 R pk = None \<longrightarrow> \<not> verifySignature R m sg pk)
   \<and> (\<forall>sb pb. decodeBase64 R sg = Some sb \<longrightarrow> decodeBase64 R pk = Some pb
         \<longrightarrow> verify_detached R (stringify R m) sb pb \<noteq> Some True
         \<longrightarrow> \<not> verifySignature R m sg pk)"
  by (auto simp add: post_inbox_cases RATE_MAX_REQUESTS_def verifySignature_def
      verifySignature_try_def split: option.splits)

theorem bad_signature_invalid_signature_witness:
  "\<not> missing_fields forged_request
   \<and> length (recent (rate_now (clock_at 0)) (req_requester_id forged_request)
        (rateBuckets init_state)) < 10
   \<and> \<not> nonce_rejected sample_runtime (clock_at 0) forged_request init_state
   \<and> \<not> verifySignature sample_runtime (messageToVerify forged_request)
        (req_signature forged_request) (req_requester_id forged_request)
   \<and> decodeBase64 sample_runtime ''forged!'' = None
   \<and> decodeBase64 sample_runtime ''alice'' = None
   \<and> decodeBase64 sample_runtime ''b64:wrong'' = Some ''wrong''
   \<and> decodeBase64 sample_runtime ''b64:alice'' = Some ''alice''
   \<and> verify_detached sample_runtime (stringify sample_runtime (messageToVerify forged_request))
        ''wrong'' ''alice'' \<noteq> Some True
   \<and> fst (post_inbox sample_runtime sample_config (clock_at 0) forged_request init_state) =
            failure 401 ''invalid_signature'' (Some ''Signature verification failed'')
   \<and> \<not> verifySignature sample_runtime (messageToVerify forged_request) ''forged!'' ''b64:alice''
   \<and> \<not> verifySignature sample_runtime (messageToVerify forged_request) ''b64:wrong'' ''alice''
   \<and> \<not> verifySignature sample_runtime (messageToVerify forged_request) ''b64:wrong'' ''b64:alice''"
proof -
  let ?m = "messageToVerify forged_request"
  have h1: "\<not> missing_fields forged_request"
    by (simp add: missing_fields_def)
  have h2: "length (recent (rate_now (clock_at 0)) (req_requester_id forged_request)
              (rateBuckets init_state)) < 10"
    by (simp add: recent_def init_state_def)
  have h3: "\<not> nonce_rejected sample_runtime (clock_at 0) forged_request init_state"
    by (simp add: nonce_rejected_def init_state_def)
  have h4: "\<not> verifySignature sample_runtime ?m
        (req_signature forged_request) (req_requester_id forged_request)"
    by (rule forged_not_verified)
  have h5: "decodeBase64 sample_runtime ''forged!'' = None"
    and h6: "decodeBase64 sample_runtime ''alice'' = None"
    and h7: "decodeBase64 sample_runtime ''b64:wrong'' = Some ''wrong''"
    and h8: "decodeBase64 sample_runtime ''b64:alice'' = Some ''alice''"
    by (simp_all add: sample_runtime_def)
  have h9: "verify_detached sample_runtime (stringify sample_runtime ?m) ''wrong'' ''alice''
              \<noteq> Some True"
    by (simp add: sample_runtime_def)
  have a: "fst (post_inbox sample_runtime sample_config (clock_at 0) forged_request init_state) =
            failure 401 ''invalid_signature'' (Some ''Signature verification failed'')"
    using bad_signature_invalid_signature
      [of forged_request "clock_at 0" init_state sample_runtime sample_config] h1 h2 h3 h4
    by blast
  have b: "\<not> verifySignature sample_runtime ?m ''forged!'' ''b64:alice''"
    using bad_signature_invalid_signature [of _ _ _ sample_runtime _ "''forged!''"] h5 by blast
  have c: "\<not> verifySignature sample_runtime ?m ''b64:wrong'' ''alice''"
    using bad_signature_invalid_signature [of _ _ _ sample_runtime _ _ _ "''alice''"] h6 by blast
  have d: "\<not> verifySignature sample_runtime ?m ''b64:wrong'' ''b64:alice''"
    using bad_signature_invalid_signature
      [of _ _ _ sample_runtime _ "''b64:wrong''" ?m "''b64:alice''"] h7 h8 h9
    by blast
  from h1 h2 h3 h4 h5 h6 h7 h8 h9 a b c d show ?thesis by blast
qed

subsection \<open>The rate limit\<close>

text \<open>
  Claim C8 says that once ten requests of an identity are counted inside the window the
  eleventh fails with \<^verbatim>\<open>rate_limited\<close>. The required-field check comes first: with ten
  timestamps of the requester inside the window, the sample request without its description
  fails with \<^verbatim>\<open>missing_fields\<close> (400).
\<close>

theorem eleventh_request_missing_fields:
  "length (recent (rate_now (clock_at 600000)) (req_requester_id incomplete_request)
     (rateBuckets full_bucket_state)) = 10
   \<and> fst (post_inbox sample_runtime sample_config (clock_at 600000) incomplete_request
            full_bucket_state) =
       failure 400 ''missing_fields''
         (Some ''Required: task_id, requester_id, task_type, description, nonce, timestamp, signature'')"
  by (simp add: post_inbox_cases missing_fields_def full_bucket_state_def init_state_def
      recent_def)

text \<open>
  Claim C8, amended. When ten (or more) timestamps of an identity's bucket are inside the
  60-second window, a request of that identity that carries all required fields fails with
  429 \<^verbatim>\<open>rate_limited\<close> and changes nothing. When fewer than ten of them are still inside
  the window, the rate-limit check passes and counts the request. Starting from the empty
  bucket map of a fresh process, no bucket ever holds more than ten timestamps.
\<close>

theorem rate_limit_window:
  "(\<not> missing_fields req
      \<longrightarrow> 10 \<le> length (recent (rate_now clk) (req_requester_id req) (rateBuckets st))
      \<longrightarrow> post_inbox R C clk req st =
            (failure 429 ''rate_limited'' (Some ''Max 10 requests per 60s per requester''), st))
   \<and> (length (recent now rid rb) < 10
      \<longrightarrow> checkRateLimit now rid rb = (True, rb(rid \<mapsto> recent now rid rb @ [now])))
   \<and> (rateBuckets st0 = Map.empty
      \<longrightarrow> rateBuckets (run R C st0 evs) rid' = Some b
      \<longrightarrow> length b \<le> 10)"
proof -
  have "length b \<le> 10"
    if "rateBuckets st0 = Map.empty" and "rateBuckets (run R C st0 evs) rid' = Some b"
  proof -
    from that(1) have "buckets_bounded (rateBuckets st0)"
      by (simp add: buckets_bounded_def)
    then have "buckets_bounded (rateBuckets (run R C st0 evs))"
      by (rule bounded_run)
    with that(2) show ?thesis
      by (simp add: buckets_bounded_def)
  qed
  then show ?thesis
    by (simp add: post_inbox_cases checkRateLimit_eq RATE_MAX_REQUESTS_def)
qed

lemma ten_requests_counted:
  "rateBuckets (run sample_runtime sample_config init_state
     (replicate 10 (Submit (clock_at 0) sample_request))) ''b64:alice'' = Some (replicate 10 0)"
proof -
  have one: "rateBuckets (step sample_runtime sample_config st (Submit (clock_at 0) sample_request))
               ''b64:alice'' = Some (b @ [0])"
    if "rateBuckets st ''b64:alice'' = Some b" and "length b < 10" and "set b \<subseteq> {0}"
    for st b
  proof -
    from that(3) have "filter (\<lambda>ts. 0 - ts < (60000::int)) b = b"
      by (induction b) auto
    with that(1,2) show ?thesis
      by (simp add: rateBuckets_post_inbox missing_fields_def recent_def RATE_MAX_REQUESTS_def
          bucket_after_def)
  qed
  have first: "rateBuckets (step sample_runtime sample_config init_state
                 (Submit (clock_at 0) sample_request)) ''b64:alice'' = Some [0]"
    by (simp add: sample_accepted)
  have "replicate 10 (Submit (clock_at 0) sample_request) =
          [Submit (clock_at 0) sample_request, Submit (clock_at 0) sample_request,
           Submit (clock_at 0) sample_request, Submit (clock_at 0) sample_request,
           Submit (clock_at 0) sample_request, Submit (clock_at 0) sample_request,
           Submit (clock_at 0) sample_request, Submit (clock_at 0) sample_request,
           Submit (clock_at 0) sample_request, Submit (clock_at 0) sample_request]"
    by (simp add: numeral_eq_Suc)
  moreover have "replicate 10 (0::int) = [0, 0, 0, 0, 0, 0, 0, 0, 0, 0]"
    by (simp add: numeral_eq_Suc)
  ultimately show ?thesis
    using one [OF one [OF one [OF one [OF one [OF one [OF one [OF one [OF one [OF first]]]]]]]]]
    by (simp add: run_def)
qed

theorem rate_limit_window_witness:
  "\<not> missing_fields changed_request
   \<and> 10 \<le> length (recent (rate_now (clock_at 59999)) (req_requester_id changed_request)
        (rateBuckets (run sample_runtime sample_config init_state
           (replicate 10 (Submit (clock_at 0) sample_request)))))
   \<and> post_inbox sample_runtime sample_config (clock_at 59999) changed_request
        (run sample_runtime sample_config init_state
           (replicate 10 (Submit (clock_at 0) sample_request))) =
       (failure 429 ''rate_limited'' (Some ''Max 10 requests per 60s per requester''),
        run sample_runtime sample_config init_state
          (replicate 10 (Submit (clock_at 0) sample_request)))
   \<and> length (recent 60000 ''b64:alice'' [''b64:alice'' \<mapsto> replicate 10 0]) < 10
   \<and> checkRateLimit 60000 ''b64:alice'' [''b64:alice'' \<mapsto> replicate 10 0] =
       (True, [''b64:alice'' \<mapsto> [60000]])
   \<and> rateBuckets init_state = Map.empty
   \<and> rateBuckets (run sample_runtime sample_config init_state
        (replicate 10 (Submit (clock_at 0) sample_request))) ''b64:alice'' = Some (replicate 10 0)
   \<and> length (replicate 10 (0::int)) \<le> 10"
proof -
  let ?st = "run sample_runtime sample_config init_state
               (replicate 10 (Submit (clock_at 0) sample_request))"
  have h1: "\<not> missing_fields changed_request"
    by (simp add: missing_fields_def)
  have h2: "10 \<le> length (recent (rate_now (clock_at 59999)) (req_requester_id changed_request)
              (rateBuckets ?st))"
    by (simp add: recent_def ten_requests_counted)
  have h3: "length (recent 60000 ''b64:alice'' [''b64:alice'' \<mapsto> replicate 10 0]) < 10"
    by (simp add: recent_def)
  have h4: "rateBuckets init_state = Map.empty"
    by (simp add: init_state_def)
  note h5 = ten_requests_counted
  note inst = rate_limit_window [of changed_request "clock_at 59999" ?st sample_runtime
      sample_config 60000 "''b64:alice''" "[''b64:alice'' \<mapsto> replicate 10 0]" init_state
      "replicate 10 (Submit (clock_at 0) sample_request)" "''b64:alice''" "replicate 10 0"]
  from inst h1 h2 have a: "post_inbox sample_runtime sample_config (clock_at 59999) changed_request ?st
      = (failure 429 ''rate_limited'' (Some ''Max 10 requests per 60s per requester''), ?st)"
    by blast
  from inst h3 have "checkRateLimit 60000 ''b64:alice'' [''b64:alice'' \<mapsto> replicate 10 0] =
       (True, [''b64:alice'' \<mapsto> replicate 10 0](''b64:alice'' \<mapsto>
          recent 60000 ''b64:alice'' [''b64:alice'' \<mapsto> replicate 10 0] @ [60000]))"
    by blast
  then have b: "checkRateLimit 60000 ''b64:alice'' [''b64:alice'' \<mapsto> replicate 10 0] =
       (True, [''b64:alice'' \<mapsto> [60000]])"
    by (simp add: recent_def)
  from inst h4 h5 have c: "length (replicate 10 (0::int)) \<le> 10"
    by blast
  from h1 h2 h3 h4 h5 a b c show ?thesis by blast
qed

subsection \<open>Timestamps that are not dates\<close>

text \<open>
  Claim C9. When the timestamp of a request does not parse as a date, the window test of
  \<^verbatim>\<open>checkNonce\<close> does not turn it down: with a fresh nonce \<^verbatim>\<open>checkNonce\<close> answers
  true and records the nonce. Such a request, when it carries all required fields, is under
  the rate limit, is validly signed and asks for a supported task type, has passed every
  check of the handler; when its task id is a plain file name, so that \<^verbatim>\<open>saveTask\<close> writes
  its file in the task directory, it is accepted (201) and stored. The witness is the sample
  request with the timestamp \<^verbatim>\<open>not-a-date\<close> and the task id \<^verbatim>\<open>t1\<close>.
\<close>

theorem unparsable_timestamp_passes_window_check:
  assumes "getTime R (req_timestamp req) = None"
    and "seenNonces st (req_nonce req) = None"
    and "\<not> missing_fields req"
    and "length (recent (rate_now clk) (req_requester_id req) (rateBuckets st)) < 10"
    and "verifySignature R (messageToVerify req) (req_signature req) (req_requester_id req)"
    and "hasCapability C (req_task_type req)"
  shows "checkNonce R (nonce_now clk) (req_nonce req) (req_timestamp req) (seenNonces st) =
           (True, (seenNonces st)(req_nonce req \<mapsto> nonce_now clk))
     \<and> (plain_id (req_task_id req) \<longrightarrow>
          fst (post_inbox R C clk req st) =
            Reply 201 \<lparr> acc_status = ''accepted'', acc_task_id = req_task_id req,
                         acc_message = ''Task received and queued for evaluation'',
                         acc_status_url = ''/tasks/'' @ req_task_id req @ ''/status'' \<rparr>
          \<and> loadTask (snd (post_inbox R C clk req st)) (req_task_id req)
              = Done (Some (new_task clk req)))"
proof -
  from assms(1,2) have fresh: "\<not> nonce_rejected R clk req st"
    by (simp add: nonce_rejected_def)
  from assms(1,2)
  have "checkNonce R (nonce_now clk) (req_nonce req) (req_timestamp req) (seenNonces st) =
           (True, (seenNonces st)(req_nonce req \<mapsto> nonce_now clk))"
    by (simp add: checkNonce_eq)
  moreover have "plain_id (req_task_id req) \<longrightarrow>
          fst (post_inbox R C clk req st) =
            Reply 201 \<lparr> acc_status = ''accepted'', acc_task_id = req_task_id req,
                         acc_message = ''Task received and queued for evaluation'',
                         acc_status_url = ''/tasks/'' @ req_task_id req @ ''/status'' \<rparr>
          \<and> loadTask (snd (post_inbox R C clk req st)) (req_task_id req)
              = Done (Some (new_task clk req))"
  proof
    assume plain: "plain_id (req_task_id req)"
    from post_inbox_plain [OF plain assms(3,4) fresh assms(5,6)] plain
    show "fst (post_inbox R C clk req st) =
            Reply 201 \<lparr> acc_status = ''accepted'', acc_task_id = req_task_id req,
                         acc_message = ''Task received and queued for evaluation'',
                         acc_status_url = ''/tasks/'' @ req_task_id req @ ''/status'' \<rparr>
          \<and> loadTask (snd (post_inbox R C clk req st)) (req_task_id req)
              = Done (Some (new_task clk req))"
      by (simp add: loadTask_plain update_conv')
  qed
  ultimately show ?thesis by blast
qed

theorem unparsable_timestamp_passes_window_check_witness:
  "getTime sample_runtime (req_timestamp unparsable_request) = None
   \<and> seenNonces init_state (req_nonce unparsable_request) = None
   \<and> \<not> missing_fields unparsable_request
   \<and> length (recent (rate_now (clock_at 0)) (req_requester_id unparsable_request)
        (rateBuckets init_state)) < 10
   \<and> verifySignature sample_runtime (messageToVerify unparsable_request)
        (req_signature unparsable_request) (req_requester_id unparsable_request)
   \<and> hasCapability sample_config (req_task_type unparsable_request)
   \<and> plain_id (req_task_id unparsable_request)
   \<and> checkNonce sample_runtime (nonce_now (clock_at 0)) (req_nonce unparsable_request)
        (req_timestamp unparsable_request) (seenNonces init_state) =
        (True, (seenNonces init_state)(req_nonce unparsable_request \<mapsto> nonce_now (clock_at 0)))
   \<and> fst (post_inbox sample_runtime sample_config (clock_at 0) unparsable_request init_state) =
        Reply 201 \<lparr> acc_status = ''accepted'', acc_task_id = ''t1'',
                     acc_message = ''Task received and queued for evaluation'',
                     acc_status_url = ''/tasks/t1/status'' \<rparr>"
proof -
  have h1: "getTime sample_runtime (req_timestamp unparsable_request) = None"
    by simp
  have h2: "seenNonces init_state (req_nonce unparsable_request) = None"
    by (simp add: init_state_def)
  have h3: "\<not> missing_fields unparsable_request"
    by (simp add: missing_fields_def)
  have h4: "length (recent (rate_now (clock_at 0)) (req_requester_id unparsable_request)
        (rateBuckets init_state)) < 10"
    by (simp add: recent_def init_state_def)
  have h5: "verifySignature sample_runtime (messageToVerify unparsable_request)
        (req_signature unparsable_request) (req_requester_id unparsable_request)"
    by (rule unparsable_verifies)
  have h6: "hasCapability sample_config (req_task_type unparsable_request)"
    by simp
  have h7: "plain_id (req_task_id unparsable_request)"
    by simp
  from unparsable_timestamp_passes_window_check [OF h1 h2 h3 h4 h5 h6] h1 h2 h3 h4 h5 h6 h7
  show ?thesis by simp
qed

subsection \<open>A limit that is not a number\<close>

text \<open>
  Claim C10 says that a \<^verbatim>\<open>limit\<close> parameter that is present and does not parse as an
  integer gives an empty list. The handlers slice only when \<^verbatim>\<open>limit\<close> is truthy: the
  empty string (\<^verbatim>\<open>?limit=\<close>) is present and parses to \<^verbatim>\<open>NaN\<close>, and both lists come
  back whole.
\<close>

theorem empty_limit_full_list:
  "parseInt sample_runtime [] = None
   \<and> get_tasks sample_runtime None (Some []) completed_state =
       Reply 200 \<lparr> tl_total = 1,
                    tl_tasks = [\<lparr> ts_task_id = ''t1'', ts_requester_id = ''b64:alice'',
                                  ts_task_type = ''research.web'', ts_description = ''x'',
                                  ts_status = ''completed'', ts_created = 0, ts_updated = 0 \<rparr>] \<rparr>
   \<and> get_receipts sample_runtime sample_config None None (Some []) completed_state =
       Reply 200 \<lparr> rl_agent_id = ''b64:agent'', rl_total = 1, rl_receipts = [sample_receipt] \<rparr>"
  by (simp add: sample_runtime_def sample_parseInt_def get_tasks_def get_receipts_def Let_def
      completed_state_def init_state_def json_files_def truthy_str_def summary_def
      sample_task_def new_task_def sample_config_def suffix_to_prefix)

text \<open>
  Claim C10, amended. For every \<^verbatim>\<open>GET /tasks\<close> and \<^verbatim>\<open>GET /receipts\<close> whose
  \<^verbatim>\<open>limit\<close> parameter is a non-empty string that \<^verbatim>\<open>parseInt\<close> turns into \<^verbatim>\<open>NaN\<close>,
  the returned list is empty and the total is 0, whatever the directories hold and whatever
  the other filters are.
\<close>

theorem nonnumeric_limit_empty_list:
  assumes "l \<noteq> []" and "parseInt R l = None"
  shows "get_tasks R flt (Some l) st = Reply 200 \<lparr> tl_total = 0, tl_tasks = [] \<rparr>
     \<and> get_receipts R C a ty (Some l) st =
         Reply 200 \<lparr> rl_agent_id = publicKey C, rl_total = 0, rl_receipts = [] \<rparr>"
  using assms by (simp add: get_tasks_def get_receipts_def slice0_def Let_def)

theorem nonnumeric_limit_empty_list_witness:
  "''abc'' \<noteq> [] \<and> parseInt sample_runtime ''abc'' = None
   \<and> get_tasks sample_runtime None (Some ''abc'') completed_state =
       Reply 200 \<lparr> tl_total = 0, tl_tasks = [] \<rparr>
   \<and> get_receipts sample_runtime sample_config None None (Some ''abc'') completed_state =
       Reply 200 \<lparr> rl_agent_id = publicKey sample_config, rl_total = 0, rl_receipts = [] \<rparr>"
proof -
  have h1: "''abc'' \<noteq> []" by simp
  have h2: "parseInt sample_runtime ''abc'' = None"
    by (simp add: sample_runtime_def sample_parseInt_def)
  from nonnumeric_limit_empty_list [OF h1 h2] h1 h2 show ?thesis by simp
qed

end
